theory Spec2Isabelle
  imports Complex_Main "HOL-Library.Char_ord" "HOL-Library.List_Lexorder"
begin

section \<open>Python values, exceptions and log records\<close>

text \<open>
  The values that flow through \<^verbatim>\<open>train_model_v2\<close>
  (\<^verbatim>\<open>src/DataPulse/topic_model_trainer.py\<close>): raw documents, tokens, models and the results
  of the collaborators. \<open>VObj\<close> is any other Python object (a model, a timestamp, a
  delayed object), known only by its identity. A Python float is modelled by the rational
  it denotes.
\<close>

datatype pyval =
    VNone
  | VBool bool
  | VInt int
  | VFloat rat
  | VStr string
  | VList "pyval list"
  | VTuple "pyval list"
  | VDict "(string \<times> pyval) list"
  | VNdarray "pyval list"
  | VDataFrame nat
  | VObj nat

text \<open>
  \<^verbatim>\<open>bool(v)\<close>, as \<^verbatim>\<open>not doc\<close> and \<^verbatim>\<open>if token\<close> use it. \<open>None\<close> is the
  \<^verbatim>\<open>ValueError\<close> numpy and pandas raise for an array of more than one element and for a
  table; an opaque object is true, as Python objects are unless they say otherwise.
\<close>

fun truth_value :: "pyval \<Rightarrow> bool option" where
  "truth_value VNone = Some False"
| "truth_value (VBool b) = Some b"
| "truth_value (VInt i) = Some (i \<noteq> 0)"
| "truth_value (VFloat r) = Some (r \<noteq> 0)"
| "truth_value (VStr s) = Some (s \<noteq> [])"
| "truth_value (VList xs) = Some (xs \<noteq> [])"
| "truth_value (VTuple xs) = Some (xs \<noteq> [])"
| "truth_value (VDict kvs) = Some (kvs \<noteq> [])"
| "truth_value (VNdarray []) = Some False"
| "truth_value (VNdarray [x]) = truth_value x"
| "truth_value (VNdarray (x # y # zs)) = None"
| "truth_value (VDataFrame n) = None"
| "truth_value (VObj n) = Some True"

definition truthy :: "pyval \<Rightarrow> bool" where
  "truthy v = (truth_value v = Some True)"

fun is_str :: "pyval \<Rightarrow> bool" where
  "is_str (VStr s) = True"
| "is_str v = False"

fun is_list :: "pyval \<Rightarrow> bool" where
  "is_list (VList xs) = True"
| "is_list v = False"

text \<open>The name Python prints for \<^verbatim>\<open>type(v)\<close>.\<close>

fun py_type :: "pyval \<Rightarrow> string" where
  "py_type VNone = ''NoneType''"
| "py_type (VBool b) = ''bool''"
| "py_type (VInt i) = ''int''"
| "py_type (VFloat r) = ''float''"
| "py_type (VStr s) = ''str''"
| "py_type (VList xs) = ''list''"
| "py_type (VTuple xs) = ''tuple''"
| "py_type (VDict kvs) = ''dict''"
| "py_type (VNdarray xs) = ''numpy.ndarray''"
| "py_type (VDataFrame n) = ''pandas.core.frame.DataFrame''"
| "py_type (VObj n) = ''object''"

text \<open>
  A formatted message is the list of its pieces: the literal text of the f-string and the
  values spliced into it.
\<close>

datatype frag = Lit string | Num int | Ty string | Rep pyval | Key nat

type_synonym message = "frag list"

text \<open>
  Exceptions that \<^verbatim>\<open>except Exception\<close> catches. \<^verbatim>\<open>UnboundLocalError\<close> is what reading
  a local variable that was never assigned raises.
\<close>

datatype exc_class =
    TypeError | ValueError | KeyError | UnboundLocalError | AttributeError | OtherException

datatype exc = Exc exc_class message

fun exc_message :: "exc \<Rightarrow> message" where
  "exc_message (Exc c m) = m"

fun is_TypeError :: "exc \<Rightarrow> bool" where
  "is_TypeError (Exc c m) = (c = TypeError)"

datatype 'a outcome = Ok 'a | Raise exc

text \<open>
  The log: the records written at level WARNING and ERROR, in the order they are written.
  Records at level INFO and DEBUG are left out.
\<close>

datatype level = WARNING | ERROR

type_synonym entry = "level \<times> message"

definition warning :: "message \<Rightarrow> entry" where
  "warning m = (WARNING, m)"

definition error :: "message \<Rightarrow> entry" where
  "error m = (ERROR, m)"


section \<open>The call's parameters and its environment\<close>

text \<open>
  A bag of words is a list of (token id, count) pairs; a gensim \<^verbatim>\<open>Dictionary\<close> is known
  by its \<^verbatim>\<open>token2id\<close> table; a future by its key. A batch is what one submission to the
  cluster carries: a slice of the corpus, or (on the fallback path of line 415, where the
  corpus itself is taken for the list of batches) one single document.
\<close>

type_synonym bow = "(nat \<times> nat) list"
type_synonym gdict = "(string \<times> nat) list"
type_synonym fut = nat
type_synonym task = "nat \<Rightarrow> pyval outcome"

datatype batch = Batch "bow list" | DocAsBatch bow

datatype encoder = EncPlain | EncNumpy | EncHook

text \<open>The parameters of \<^verbatim>\<open>train_model_v2\<close> (lines 59 to 62).
  \<open>validation_test_data\<close> is the lazy handle, given by what \<^verbatim>\<open>dask.compute\<close> makes of it
  (line 76).\<close>

record args =
  data_source :: string
  n_topics :: int
  alpha_str :: pyval
  beta_str :: pyval
  zip_path :: string
  pylda_path :: string
  pca_path :: string
  pca_gpu_path :: string
  unified_dictionary :: gdict
  validation_test_data :: "pyval list outcome"
  phase :: string
  random_state :: int
  passes :: int
  iterations :: int
  update_every :: int
  eval_every :: int
  cores :: int
  per_word_topics :: bool
  ldamodel_parameter :: pyval

text \<open>
  The collaborators the function calls and does not define: the other modules of the
  package (\<^verbatim>\<open>alpha_eta\<close>, \<^verbatim>\<open>utils\<close>, \<^verbatim>\<open>batch_estimation\<close>, \<^verbatim>\<open>mathstats\<close>,
  \<^verbatim>\<open>process_futures\<close>), gensim, dask, numpy and the standard library. Each is a field:
  what the call returns, or the exception it raises (\<open>submit\<close> and \<open>wait\<close> are also given
  the position of the call, since two calls with equal arguments need not agree). A field named \<open>\<dots>_error\<close> is
  \<open>None\<close> when the call succeeds. A delayed task is the outcome that forcing it will
  have; the topic-extraction task is forced twice (lines 350 and 639), so it is indexed by
  the occasion.
\<close>

record env =
  get_client :: "unit outcome"
  str_of :: "pyval \<Rightarrow> string"
  Dictionary :: "pyval list list \<Rightarrow> gdict outcome"
  doc2bow :: "gdict \<Rightarrow> pyval list \<Rightarrow> bow outcome"
  calculate_numeric_alpha :: "pyval \<Rightarrow> int \<Rightarrow> pyval outcome"
  calculate_numeric_beta :: "pyval \<Rightarrow> int \<Rightarrow> pyval outcome"
  pickle_error :: "pyval \<Rightarrow> exc option"
  LdaModel :: "bow list \<Rightarrow> gdict \<Rightarrow> int \<Rightarrow> pyval \<Rightarrow> pyval \<Rightarrow> int \<Rightarrow> int \<Rightarrow> int
    \<Rightarrow> int \<Rightarrow> int \<Rightarrow> int \<Rightarrow> pyval outcome"
  delayed_error :: "string \<Rightarrow> exc option"
  estimate_batches_large_docs_v2 :: "string \<Rightarrow> int \<Rightarrow> int \<Rightarrow> rat \<Rightarrow> int \<Rightarrow> int outcome"
  calculate_perplexity_threshold :: "pyval \<Rightarrow> bow list \<Rightarrow> pyval \<Rightarrow> pyval outcome"
  calculate_torch_coherence :: "string \<Rightarrow> pyval \<Rightarrow> pyval list list \<Rightarrow> gdict \<Rightarrow> pyval outcome"
  calculate_coherence_metrics :: "pyval \<Rightarrow> pyval \<Rightarrow> pyval \<Rightarrow> gdict \<Rightarrow> pyval list list \<Rightarrow> int \<Rightarrow> int
    \<Rightarrow> (string \<times> pyval) list outcome"
  calculate_convergence :: "pyval \<Rightarrow> bow list \<Rightarrow> pyval \<Rightarrow> pyval outcome"
  calculate_perplexity_score :: "pyval \<Rightarrow> bow list \<Rightarrow> pyval \<Rightarrow> pyval outcome"
  rng_choice :: "int \<Rightarrow> rat list \<Rightarrow> rat"
  extract_topics_with_get_topic_terms :: "pyval \<Rightarrow> int \<Rightarrow> task outcome"
  convert_float32_to_float :: "pyval \<Rightarrow> pyval outcome"
  json_error :: "encoder \<Rightarrow> pyval \<Rightarrow> exc option"
  astype_float_tolist :: "pyval \<Rightarrow> pyval outcome"
  applymap_float :: "pyval \<Rightarrow> pyval outcome"
  submit :: "nat \<Rightarrow> pyval \<Rightarrow> batch \<Rightarrow> nat \<Rightarrow> fut outcome"
  wait :: "nat \<Rightarrow> fut list \<Rightarrow> nat \<Rightarrow> (fut list \<times> fut list) outcome"
  future_status :: "fut \<Rightarrow> string"
  future_exception :: "fut \<Rightarrow> pyval"
  retry :: "fut \<Rightarrow> fut outcome"
  future_result :: "fut \<Rightarrow> nat \<Rightarrow> pyval outcome"
  model_num_topics :: "pyval \<Rightarrow> int option"
  model_has_state :: "pyval \<Rightarrow> bool"
  show_topic :: "pyval \<Rightarrow> int \<Rightarrow> int \<Rightarrow> pyval outcome"
  topic_words_compute :: "pyval \<Rightarrow> string \<Rightarrow> pyval list list \<Rightarrow> int \<Rightarrow> pyval outcome"
  combined_random_value :: string
  strftime_now :: string
  datetime_now :: pyval
  timestamp_now :: pyval
  md5 :: "string \<Rightarrow> string"
  sha256 :: "string \<Rightarrow> string"
  path_join :: "string list \<Rightarrow> string"

text \<open>\<^verbatim>\<open>str(v)\<close>: a string is itself; the text of any other value is the environment's.\<close>

definition py_str :: "env \<Rightarrow> pyval \<Rightarrow> string" where
  "py_str env v = (case v of VStr s \<Rightarrow> s | _ \<Rightarrow> str_of env v)"

fun items :: "pyval \<Rightarrow> pyval list" where
  "items (VList xs) = xs"
| "items v = []"

section \<open>Document normalizer (lines 74 to 133)\<close>

definition ambiguous_truth :: exc where
  "ambiguous_truth = Exc ValueError [Lit ''The truth value is ambiguous'']"

text \<open>
  The first loop (lines 84 to 100) rewrites \<^verbatim>\<open>batch_documents\<close> in place and stops at the
  first exception: the result is the log, the list as the loop left it, and the exception
  if one was raised.
\<close>

fun first_pass :: "env \<Rightarrow> nat \<Rightarrow> pyval list \<Rightarrow> entry list \<times> pyval list \<times> exc option" where
  "first_pass env idx [] = ([], [], None)"
| "first_pass env idx (doc # rest) =
    (case truth_value doc of
       None \<Rightarrow> ([], doc # rest, Some ambiguous_truth)
     | Some False \<Rightarrow>
         (case first_pass env (Suc idx) rest of
            (l, ds, e) \<Rightarrow>
              (warning [Lit ''Skipping empty document at index '', Num (int idx), Lit ''.''] # l,
               doc # ds, e))
     | Some True \<Rightarrow>
         (if is_str doc then
            (case first_pass env (Suc idx) rest of (l, ds, e) \<Rightarrow> (l, VList [doc] # ds, e))
          else if is_list doc then
            (if None \<in> set (map truth_value (items doc)) then ([], doc # rest, Some ambiguous_truth)
             else
               (case first_pass env (Suc idx) rest of
                  (l, ds, e) \<Rightarrow>
                    (l, VList (map (\<lambda>token. VStr (py_str env token)) (filter truthy (items doc))) # ds, e)))
          else
            ([error [Lit ''Unexpected type at index '', Num (int idx),
                     Lit ''. Expected a list of tokens or string, got: '', Ty (py_type doc)]],
             doc # rest,
             Some (Exc ValueError [Lit ''Unexpected type at index '', Num (int idx),
                     Lit ''. Expected list or string, got: '', Ty (py_type doc)]))))"

text \<open>
  The items the first loop gets past without raising (lines 85 to 95): a falsy item is
  skipped, a true string is wrapped, a true list is rewritten when each of its tokens has
  a truth value.
\<close>

definition passes_first_loop :: "pyval \<Rightarrow> bool" where
  "passes_first_loop doc =
    (case truth_value doc of
       None \<Rightarrow> False
     | Some False \<Rightarrow> True
     | Some True \<Rightarrow> is_str doc \<or> (is_list doc \<and> None \<notin> set (map truth_value (items doc))))"

text \<open>The second loop (lines 103 to 106) only reads.\<close>

fun second_pass :: "nat \<Rightarrow> pyval list \<Rightarrow> entry list \<times> exc option" where
  "second_pass idx [] = ([], None)"
| "second_pass idx (doc # rest) =
    (if is_list doc \<and> list_all is_str (items doc) then second_pass (Suc idx) rest
     else
       ([error [Lit ''Document at index '', Num (int idx),
                Lit '' has an unexpected structure: '', Rep doc]],
        Some (Exc ValueError [Lit ''Document at index '', Num (int idx),
                Lit '' contains invalid structure.''])))"

text \<open>
  The \<^verbatim>\<open>try\<close> of lines 74 to 113. Its handler catches every exception and only logs it;
  \<open>None\<close> is \<^verbatim>\<open>batch_documents\<close> left unassigned, when \<^verbatim>\<open>dask.compute\<close> itself raised.
\<close>

definition computing_failed :: "exc \<Rightarrow> entry" where
  "computing_failed e = error (Lit ''Error computing validation_test_data data: '' # exc_message e)"

definition normalize_documents :: "env \<Rightarrow> pyval list outcome \<Rightarrow> entry list \<times> pyval list option" where
  "normalize_documents env vtd =
    (case vtd of
       Raise e \<Rightarrow> ([computing_failed e], None)
     | Ok docs \<Rightarrow>
         (case first_pass env 0 docs of
            (l1, docs1, Some e) \<Rightarrow> (l1 @ [computing_failed e], Some docs1)
          | (l1, docs1, None) \<Rightarrow>
              (case second_pass 0 docs1 of
                 (l2, Some e) \<Rightarrow> (l1 @ l2 @ [computing_failed e], Some docs1)
               | (l2, None) \<Rightarrow> (l1 @ l2, Some docs1))))"

section \<open>Results of the call\<close>

text \<open>
  A value of the returned mapping: a Python value as it is, the text \<^verbatim>\<open>json.dumps\<close>
  made of a value with one of the three encoders the source uses (no hook, the
  \<^verbatim>\<open>NumpyEncoder\<close> class, the \<^verbatim>\<open>default=\<close> hook of line 483), or the bytes
  \<^verbatim>\<open>pickle.dumps\<close> made of an object.
\<close>

datatype field = Plain pyval | JsonText encoder pyval | Pickled pyval | PickledDictionary gdict

text \<open>
  How the call ends without a mapping: it returns \<^verbatim>\<open>None\<close>, an exception reaches the
  caller, or \<^verbatim>\<open>sys.exit()\<close> ends the process. A step of the function either goes on
  with a value or ends the call so; the call as a whole returns the mapping or ends so.
\<close>

datatype abort = NoRecord | Raised exc | Exited

datatype 'a step = Continue 'a | Stop abort

datatype result = Record "(string \<times> field) list" | Abort abort

type_synonym 'a run = "entry list \<times> 'a step"

definition andthen :: "'a run \<Rightarrow> ('a \<Rightarrow> 'b run) \<Rightarrow> 'b run" where
  "andthen m f =
    (case m of
       (l, Stop r) \<Rightarrow> (l, Stop r)
     | (l, Continue x) \<Rightarrow> (case f x of (l', s) \<Rightarrow> (l @ l', s)))"

definition continue :: "'a \<Rightarrow> 'a run" where
  "continue x = ([], Continue x)"

definition logged :: "entry list \<Rightarrow> 'a \<Rightarrow> 'a run" where
  "logged l x = (l, Continue x)"

definition stop :: "entry list \<Rightarrow> abort \<Rightarrow> 'a run" where
  "stop l r = (l, Stop r)"

definition propagate :: "'a outcome \<Rightarrow> 'a run" where
  "propagate m = (case m of Ok x \<Rightarrow> ([], Continue x) | Raise e \<Rightarrow> ([], Stop (Raised e)))"

text \<open>
  Lines 116 to 133: the checks after the handler. Reading \<^verbatim>\<open>batch_documents\<close> when it
  was never assigned raises; an empty list, a nested list that is not a list of lists and
  a list with an item that is not a list each return \<^verbatim>\<open>None\<close>.
\<close>

definition check_structure :: "pyval list option \<Rightarrow> pyval list list run" where
  "check_structure bd0 =
    (case bd0 of
       None \<Rightarrow> stop [] (Raised (Exc UnboundLocalError [Lit ''batch_documents'']))
     | Some bd \<Rightarrow>
         if bd = [] then
           stop [error [Lit ''All documents were filtered out during cleaning in train_model_v2.'']]
             NoRecord
         else if length bd = 1 \<and> is_list (hd bd) \<and> \<not> list_all is_list (items (hd bd)) then
           stop [error [Lit ''Nested batch_documents contains invalid structure. Skipping flattening.'']]
             NoRecord
         else
           (let bd' = (if length bd = 1 \<and> is_list (hd bd) then items (hd bd) else bd) in
            if \<not> list_all is_list bd' then
              stop [error [Lit ''batch_documents is not a list of lists. Exiting.'']] NoRecord
            else continue (map items bd')))"


section \<open>Corpus builder (lines 136 to 190)\<close>

text \<open>
  Lines 137 to 149: the phase-local dictionary is built from the normalized batch. Only a
  \<^verbatim>\<open>TypeError\<close> is handled (the call returns \<^verbatim>\<open>None\<close>); an empty dictionary returns
  \<^verbatim>\<open>None\<close> as well.
\<close>

definition build_dictionary :: "env \<Rightarrow> pyval list list \<Rightarrow> gdict run" where
  "build_dictionary env batch_documents =
    (case Dictionary env batch_documents of
       Raise e \<Rightarrow>
         if is_TypeError e then
           stop [error [Lit ''Error: The data structure is not correct to create the Dictionary object.''],
                 error (Lit ''Details: '' # exc_message e)] NoRecord
         else stop [] (Raised e)
     | Ok d \<Rightarrow>
         if length d = 0 then
           stop [error [Lit ''Dictionary is empty after filtering. Adjust thresholds.'']] NoRecord
         else continue d)"

text \<open>The keys of \<^verbatim>\<open>corpus_data\<close> (lines 68 to 72).\<close>

definition corpus_keys :: "string list" where
  "corpus_keys = [''train'', ''validation'', ''test'']"

text \<open>
  The loop of lines 157 to 184, over documents that are all lists (line 131 has checked
  it). The result is the log, \<^verbatim>\<open>corpus_data[phase]\<close>, \<^verbatim>\<open>number_of_documents\<close> and
  \<^verbatim>\<open>failed_convert_token_to_bow\<close>. A phase that is no key of \<^verbatim>\<open>corpus_data\<close> makes
  line 178 raise \<^verbatim>\<open>KeyError\<close>, which the handler of line 181 counts as a failure.
\<close>

fun bow_loop :: "env \<Rightarrow> gdict \<Rightarrow> string \<Rightarrow> pyval list list \<Rightarrow> entry list \<times> bow list \<times> nat \<times> nat" where
  "bow_loop env d ph [] = ([], [], 0, 0)"
| "bow_loop env d ph (doc_tokens # rest) =
    (case bow_loop env d ph rest of
       (l, corpus, n, failed) \<Rightarrow>
         if doc_tokens = [] then
           (warning [Lit ''Skipping empty document.''] # l, corpus, n, Suc failed)
         else
           (case doc2bow env d doc_tokens of
              Raise e \<Rightarrow>
                (error ([Lit ''Error processing document: '', Rep (VList doc_tokens), Lit '', error: '']
                        @ exc_message e) # l,
                 corpus, n, Suc failed)
            | Ok bow_out \<Rightarrow>
                if ph \<in> set corpus_keys then (l, bow_out # corpus, Suc n, failed)
                else
                  (error [Lit ''Error processing document: '', Rep (VList doc_tokens), Lit '', error: '',
                          Rep (VStr ph)] # l,
                   corpus, n, Suc failed)))"

record corpus_state =
  train_val_test_dictionary :: gdict
  corpus :: "bow list"
  number_of_documents :: nat
  failed_convert_token_to_bow :: nat
  chunksize :: int

definition corpus_builder :: "env \<Rightarrow> args \<Rightarrow> pyval list list \<Rightarrow> corpus_state run" where
  "corpus_builder env a batch_documents =
    andthen (build_dictionary env batch_documents) (\<lambda>d.
      case bow_loop env d (phase a) batch_documents of
        (l, c, n, failed) \<Rightarrow>
          if phase a \<in> set corpus_keys then
            logged l \<lparr>train_val_test_dictionary = d, corpus = c, number_of_documents = n,
                      failed_convert_token_to_bow = failed,
                      chunksize = max 1 (int (length c) div 5)\<rparr>
          else stop l (Raised (Exc KeyError [Rep (VStr (phase a))])))"

section \<open>Model stage selector (lines 199 to 242)\<close>

definition DEFAULT_SCORE :: pyval where
  "DEFAULT_SCORE = VFloat (1 / 4)"

definition pickle_dumps :: "env \<Rightarrow> pyval \<Rightarrow> field outcome" where
  "pickle_dumps env v = (case pickle_error env v of None \<Rightarrow> Ok (Pickled v) | Some e \<Rightarrow> Raise e)"

text \<open>
  \<^verbatim>\<open>ldamodel_bytes\<close> is the \<^verbatim>\<open>bytes\<close> object \<^verbatim>\<open>pickle.dumps\<close> returned (line 212) or
  a delayed call of \<^verbatim>\<open>pickle.dumps\<close> (line 233), given by the outcome of forcing it.
\<close>

datatype model_bytes = Bytes field | DelayedBytes "field outcome"

definition model_stage ::
  "env \<Rightarrow> args \<Rightarrow> bow list \<Rightarrow> pyval \<Rightarrow> pyval \<Rightarrow> int \<Rightarrow> (pyval \<times> model_bytes) run" where
  "model_stage env a c n_alpha n_beta chunk =
    (if phase a \<in> set [''validation'', ''test''] then
       andthen (propagate (pickle_dumps env (ldamodel_parameter a))) (\<lambda>b.
         continue (ldamodel_parameter a, Bytes b))
     else if phase a = ''train'' then
       (case
          (case LdaModel env c (unified_dictionary a) (n_topics a) n_alpha n_beta (random_state a)
                  (passes a) (iterations a) (update_every a) (eval_every a) chunk of
             Raise e \<Rightarrow> Raise e
           | Ok ldamodel \<Rightarrow>
               (case delayed_error env ''pickle.dumps'' of
                  Some e \<Rightarrow> Raise e
                | None \<Rightarrow> Ok (ldamodel, DelayedBytes (pickle_dumps env ldamodel)))) of
          Raise e \<Rightarrow>
            stop [error (Lit ''An error occurred during LDA model training: '' # exc_message e)]
              (Raised e)
        | Ok mb \<Rightarrow> continue mb)
     else stop [] Exited)"

section \<open>Metric computation pipeline (lines 244 to 320)\<close>

text \<open>
  \<^verbatim>\<open>dask.delayed(f)(args)\<close> builds a task and does not call \<open>f\<close>: the \<^verbatim>\<open>try\<close>
  around it sees only a failure to build the task. The task built in the handler,
  \<^verbatim>\<open>dask.delayed(lambda: DEFAULT_SCORE)()\<close>, yields the default when forced.
\<close>

definition delayed_or_default ::
  "env \<Rightarrow> string \<Rightarrow> pyval outcome \<Rightarrow> message \<Rightarrow> entry list \<times> pyval outcome" where
  "delayed_or_default env name forced msg =
    (case delayed_error env name of
       None \<Rightarrow> ([], forced)
     | Some e \<Rightarrow> ([warning msg], Ok DEFAULT_SCORE))"

definition threshold_task :: "env \<Rightarrow> args \<Rightarrow> pyval \<Rightarrow> bow list \<Rightarrow> entry list \<times> pyval outcome" where
  "threshold_task env a ldamodel c =
    delayed_or_default env ''calculate_perplexity_threshold''
      (calculate_perplexity_threshold env ldamodel c DEFAULT_SCORE)
      [Lit ''Perplexity threshold calculation failed for phase '', Rep (VStr (phase a)),
       Lit ''. Using default score: '', Rep DEFAULT_SCORE]"

definition convergence_task :: "env \<Rightarrow> pyval \<Rightarrow> bow list \<Rightarrow> entry list \<times> pyval outcome" where
  "convergence_task env ldamodel c =
    delayed_or_default env ''calculate_convergence''
      (calculate_convergence env ldamodel c DEFAULT_SCORE)
      [Lit ''Convergence calculation failed. Using default score.'']"

definition perplexity_task :: "env \<Rightarrow> pyval \<Rightarrow> bow list \<Rightarrow> entry list \<times> pyval outcome" where
  "perplexity_task env ldamodel c =
    delayed_or_default env ''calculate_perplexity_score''
      (calculate_perplexity_score env ldamodel c DEFAULT_SCORE)
      [Lit ''Perplexity score calculation failed. Using default score.'']"

text \<open>The five coherence statistics (lines 283 to 287).\<close>

record coherence_family =
  coherence_score :: pyval
  mean_coherence :: pyval
  median_coherence :: pyval
  std_coherence :: pyval
  mode_coherence :: pyval

definition lookup_key :: "(string \<times> pyval) list \<Rightarrow> string \<Rightarrow> pyval outcome" where
  "lookup_key data k =
    (case map_of data k of None \<Rightarrow> Raise (Exc KeyError [Rep (VStr k)]) | Some v \<Rightarrow> Ok v)"

definition obind :: "'a outcome \<Rightarrow> ('a \<Rightarrow> 'b outcome) \<Rightarrow> 'b outcome" where
  "obind m f = (case m of Raise e \<Rightarrow> Raise e | Ok x \<Rightarrow> f x)"

text \<open>
  Lines 272 to 292, the body of the \<^verbatim>\<open>try\<close>: the task is built, the five entries are
  read from its result, and all of it is forced by \<^verbatim>\<open>dask.compute\<close> inside the
  \<^verbatim>\<open>try\<close>.
\<close>

definition resample_coherence ::
  "env \<Rightarrow> args \<Rightarrow> pyval \<Rightarrow> pyval list list \<Rightarrow> pyval \<Rightarrow> int \<Rightarrow> coherence_family outcome" where
  "resample_coherence env a ldamodel batch_documents coherence_task max_attempts =
    (case delayed_error env ''calculate_coherence_metrics'' of
       Some e \<Rightarrow> Raise e
     | None \<Rightarrow>
         obind (calculate_coherence_metrics env DEFAULT_SCORE coherence_task ldamodel
                  (unified_dictionary a) batch_documents (cores a) max_attempts) (\<lambda>data.
         obind (lookup_key data ''coherence_score'') (\<lambda>cs.
         obind (lookup_key data ''mean_coherence'') (\<lambda>mean.
         obind (lookup_key data ''median_coherence'') (\<lambda>median.
         obind (lookup_key data ''std_coherence'') (\<lambda>std.
         obind (lookup_key data ''mode_coherence'') (\<lambda>mode.
           Ok \<lparr>coherence_score = cs, mean_coherence = mean, median_coherence = median,
               std_coherence = std, mode_coherence = mode\<rparr>)))))))"

text \<open>
  Lines 296 to 298. \<^verbatim>\<open>np.linspace(start, endpoint, num)\<close> is \<open>num\<close> evenly spaced values;
  \<^verbatim>\<open>np.random.default_rng(seed).choice(values)\<close> is a function of its seed and of the
  values, the environment's \<open>rng_choice\<close>.
\<close>

definition linspace :: "rat \<Rightarrow> rat \<Rightarrow> nat \<Rightarrow> rat list" where
  "linspace start endpoint num =
    map (\<lambda>i. start + of_nat i * ((endpoint - start) / of_nat (num - 1))) [0..<num]"

definition fallback_coherence_values :: "rat list" where
  "fallback_coherence_values = linspace (1 / 100) (1 / 2) 10"

definition fallback_coherence :: "env \<Rightarrow> coherence_family" where
  "fallback_coherence env =
    (let v = VFloat (rng_choice env 8241984 fallback_coherence_values) in
     \<lparr>coherence_score = v, mean_coherence = v, median_coherence = v, std_coherence = v,
      mode_coherence = v\<rparr>)"

text \<open>Lines 260 to 298: the primary estimate, then the resampling with its fallback.\<close>

definition primary_coherence :: "env \<Rightarrow> args \<Rightarrow> pyval \<Rightarrow> pyval list list \<Rightarrow> entry list \<times> pyval" where
  "primary_coherence env a ldamodel batch_documents =
    (case calculate_torch_coherence env (data_source a) ldamodel batch_documents
            (unified_dictionary a) of
       Ok t \<Rightarrow> ([], t)
     | Raise e \<Rightarrow>
         ([warning [Lit ''calculate_torch_coherence score calculation failed. Using default score.'']],
          DEFAULT_SCORE))"

definition coherence_stage ::
  "env \<Rightarrow> args \<Rightarrow> pyval \<Rightarrow> pyval list list \<Rightarrow> int \<Rightarrow> entry list \<times> coherence_family" where
  "coherence_stage env a ldamodel batch_documents max_attempts =
    (case primary_coherence env a ldamodel batch_documents of
       (l1, coherence_task) \<Rightarrow>
         (case resample_coherence env a ldamodel batch_documents coherence_task max_attempts of
            Ok stats \<Rightarrow> (l1, stats)
          | Raise e \<Rightarrow>
              (l1 @ [warning [Lit ''Sample coherence scores calculation failed. NumPy default_rng().'']],
               fallback_coherence env)))"


section \<open>JSON encoding\<close>

text \<open>
  \<^verbatim>\<open>json.dumps\<close> encodes \<^verbatim>\<open>None\<close>, booleans, numbers, strings, lists, tuples and
  dictionaries with string keys whatever the encoder; on any other value the outcome is
  the environment's (the encoder class or hook decides).
\<close>

fun json_plain :: "pyval \<Rightarrow> bool" where
  "json_plain VNone = True"
| "json_plain (VBool b) = True"
| "json_plain (VInt i) = True"
| "json_plain (VFloat r) = True"
| "json_plain (VStr s) = True"
| "json_plain (VList xs) = list_all json_plain xs"
| "json_plain (VTuple xs) = list_all json_plain xs"
| "json_plain (VDict kvs) = list_all json_plain (map snd kvs)"
| "json_plain (VNdarray xs) = False"
| "json_plain (VDataFrame n) = False"
| "json_plain (VObj n) = False"

definition json_dumps :: "env \<Rightarrow> encoder \<Rightarrow> pyval \<Rightarrow> field outcome" where
  "json_dumps env enc v =
    (if json_plain v then Ok (JsonText enc v)
     else (case json_error env enc v of None \<Rightarrow> Ok (JsonText enc v) | Some e \<Rightarrow> Raise e))"

text \<open>The placeholder of lines 324 to 326, the failure marker of lines 345 and 357, and
  the structured error object of lines 382, 513 and 608.\<close>

definition not_initialized :: pyval where
  "not_initialized = VList [VList [VStr ''not_initialized_yet''], VList [VStr ''no_real_data'']]"

definition failed_extract :: pyval where
  "failed_extract =
    VList [VList [VStr ''failed_extract_topics_with_get_topic_terms''],
           VList [VStr ''not_initialized_yet''], VList [VStr ''no_real_data'']]"

definition error_sentinel :: "string \<Rightarrow> pyval" where
  "error_sentinel ph =
    VDict [(''error'', VStr ''Validation data generation failed''), (''phase'', VStr ph)]"

text \<open>
  The third strategy (lines 369 to 378, 500 to 509, 595 to 604): an array is converted to
  a list of floats, a table has its cells converted, anything else is encoded as it is.
\<close>

definition third_attempt :: "env \<Rightarrow> pyval \<Rightarrow> field outcome" where
  "third_attempt env v =
    (case v of
       VNdarray xs \<Rightarrow> obind (astype_float_tolist env v) (json_dumps env EncPlain)
     | VDataFrame n \<Rightarrow> obind (applymap_float env v) (json_dumps env EncPlain)
     | _ \<Rightarrow> json_dumps env EncPlain v)"

section \<open>Topic extraction (lines 328 to 384)\<close>

text \<open>Line 330. The counts of a bag of words are numbers, so the sum cannot fail and the
  handler of line 332 has no case here.\<close>

definition count_words :: "bow list \<Rightarrow> int" where
  "count_words c = int (sum_list (map (\<lambda>doc. sum_list (map snd doc)) c))"

text \<open>
  Lines 357 to 382: after a failed extraction \<^verbatim>\<open>topics_results_to_store\<close> is the failure
  marker, and line 360 stores what \<^verbatim>\<open>convert_float32_to_float\<close> returns for it.
\<close>

definition serialize_failed_topics :: "env \<Rightarrow> string \<Rightarrow> field run" where
  "serialize_failed_topics env ph =
    (case convert_float32_to_float env failed_extract of
       Ok v \<Rightarrow> continue (Plain v)
     | Raise e1 \<Rightarrow>
         andthen (logged [error (Lit ''First attempt to serialize topics_results_to_store failed: ''
                                 # exc_message e1)] ()) (\<lambda>u.
         case json_dumps env EncNumpy failed_extract of
           Ok j \<Rightarrow> continue j
         | Raise e2 \<Rightarrow>
             andthen (logged [warning (Lit ''Second topics_results_jsonb serialization attempt failed: ''
                                       # exc_message e2)] ()) (\<lambda>u.
             case third_attempt env failed_extract of
               Ok j \<Rightarrow> continue j
             | Raise e3 \<Rightarrow>
                 andthen (logged [error (Lit ''All JSON topics_results_jsonb serialization attempts failed: ''
                                         # exc_message e3)] ()) (\<lambda>u.
                 propagate (json_dumps env EncPlain (error_sentinel ph))))))"

text \<open>
  Lines 338 to 384. The first component is \<^verbatim>\<open>topics_to_store_task\<close>, \<open>None\<close> when
  line 341 raised and the variable was never assigned; the second is
  \<^verbatim>\<open>topics_results_jsonb\<close>.
\<close>

definition extract_topics :: "env \<Rightarrow> args \<Rightarrow> pyval \<Rightarrow> int \<Rightarrow> (task option \<times> field) run" where
  "extract_topics env a ldamodel num_words =
    (case extract_topics_with_get_topic_terms env ldamodel num_words of
       Raise e \<Rightarrow>
         andthen (logged [error [Lit ''[extract_topics_with_get_topic_terms] failed to extract topics.'']] ())
           (\<lambda>u.
         andthen (propagate (json_dumps env EncNumpy failed_extract)) (\<lambda>j.
         continue (None, j)))
     | Ok topics_to_store_task \<Rightarrow>
         (case obind (topics_to_store_task 0) (json_dumps env EncNumpy) of
            Ok j \<Rightarrow> continue (Some topics_to_store_task, j)
          | Raise e \<Rightarrow>
              andthen (logged [error (Lit ''Error extracting topics: '' # exc_message e)] ()) (\<lambda>u.
              andthen (serialize_failed_topics env (phase a)) (\<lambda>j.
              continue (Some topics_to_store_task, j)))))"

section \<open>Distributed batch executor (lines 397 to 477)\<close>

text \<open>
  Line 410: \<^verbatim>\<open>[corpus[i:i + batch_size] for i in range(0, len(corpus), batch_size)]\<close>.
  A negative step gives an empty range; a zero step makes \<^verbatim>\<open>range\<close> raise.
\<close>

definition partition_corpus :: "int \<Rightarrow> 'a list \<Rightarrow> 'a list list outcome" where
  "partition_corpus batch_size c =
    (if batch_size = 0 then Raise (Exc ValueError [Lit ''range() arg 3 must not be zero''])
     else if batch_size < 0 then Ok []
     else Ok (map (\<lambda>j. take (nat batch_size) (drop (j * nat batch_size) c))
                [0..<(length c + nat batch_size - 1) div nat batch_size]))"

definition fallback_logs :: "exc \<Rightarrow> entry list" where
  "fallback_logs e =
    [error (Lit ''Error in topic_model_trainer/process_batch_get_document_topics: '' # exc_message e),
     warning [Lit ''Utilizing entire corpus for document topic calculation.'']]"

text \<open>
  Lines 398 to 415: the log, \<^verbatim>\<open>batch_size\<close> and \<^verbatim>\<open>corpus_batches\<close>. In the handler
  \<^verbatim>\<open>corpus_batches = corpus_data[phase]\<close>: the list of batches is the corpus, so each
  document is one batch.
\<close>

definition make_batches :: "env \<Rightarrow> args \<Rightarrow> bow list \<Rightarrow> entry list \<times> int \<times> batch list" where
  "make_batches env a c =
    (case estimate_batches_large_docs_v2 env (data_source a) 1 15 (2 / 5) 3 of
       Raise e \<Rightarrow> (fallback_logs e, - 1, map DocAsBatch c)
     | Ok estimate \<Rightarrow>
         (let clamped = min (int (length c)) estimate;
              batch_size = (if clamped = 0 then 5 else clamped)
          in case partition_corpus batch_size c of
               Raise e \<Rightarrow> (fallback_logs e, batch_size, map DocAsBatch c)
             | Ok slices \<Rightarrow> ([], batch_size, map Batch slices)))"

text \<open>Lines 420 to 429: one submission per batch, with \<^verbatim>\<open>retries=6\<close>; the loop stops
  at the first submission that raises, and the futures made so far are kept.\<close>

fun submit_batches :: "env \<Rightarrow> pyval \<Rightarrow> nat \<Rightarrow> batch list \<Rightarrow> fut list \<times> exc option" where
  "submit_batches env ldamodel idx [] = ([], None)"
| "submit_batches env ldamodel idx (b # bs) =
    (case submit env idx ldamodel b 6 of
       Raise e \<Rightarrow> ([], Some e)
     | Ok future \<Rightarrow>
         (case submit_batches env ldamodel (Suc idx) bs of (fs, e) \<Rightarrow> (future # fs, e)))"

text \<open>A list comprehension over calls: the first call that raises ends it.\<close>

fun collect :: "'a outcome list \<Rightarrow> 'a list outcome" where
  "collect [] = Ok []"
| "collect (Raise e # ms) = Raise e"
| "collect (Ok x # ms) = (case collect ms of Ok xs \<Rightarrow> Ok (x # xs) | Raise e \<Rightarrow> Raise e)"

text \<open>Lines 445 to 455: the retry wave, with the records it writes before it returns or
  raises.\<close>

definition retry_unresolved :: "env \<Rightarrow> fut list \<Rightarrow> entry list \<times> (fut list \<times> fut list) outcome" where
  "retry_unresolved env not_done =
    (if not_done = [] then ([], Ok ([], []))
     else
       (let l = [warning [Lit ''Retrying '', Num (int (length not_done)), Lit '' unresolved tasks...'']]
        in case collect (map (retry env) not_done) of
             Raise e \<Rightarrow> (l, Raise e)
           | Ok retries \<Rightarrow>
               (case wait env 1 retries 300 of
                  Raise e \<Rightarrow> (l, Raise e)
                | Ok (retry_done_batches, retry_not_done) \<Rightarrow>
                    (l @ (if retry_not_done = [] then []
                          else error [Num (int (length retry_not_done)),
                                      Lit '' tasks remain unresolved after retry.'']
                               # map (\<lambda>future. error [Lit ''Unresolved task after retry: '', Key future])
                                   retry_not_done),
                     Ok (retry_done_batches, retry_not_done)))))"

definition failed_future_logs :: "env \<Rightarrow> fut \<Rightarrow> entry list" where
  "failed_future_logs env future =
    (if future_status env future = ''error'' then
       [error [Lit ''Future failed with exception: '', Rep (future_exception env future)],
        error [Lit ''SOURCE OF ERROR FOUND(1)'']]
     else [])"

text \<open>
  Lines 436 to 469. \<open>Raise\<close> is an exception that leaves for the handler of line 475;
  a failure of line 465 is handled at line 468 and leaves \<^verbatim>\<open>validation_results_to_store\<close>
  as line 400 set it, the empty list.
\<close>

definition gather_results :: "env \<Rightarrow> fut list \<Rightarrow> entry list \<times> pyval list outcome" where
  "gather_results env futures =
    (case wait env 0 futures 300 of
       Raise e \<Rightarrow> ([], Raise e)
     | Ok (done_batches, not_done) \<Rightarrow>
         (let l1 = concat (map (failed_future_logs env) done_batches)
          in case retry_unresolved env not_done of
               (l2, Raise e) \<Rightarrow> (l1 @ l2, Raise e)
             | (l2, Ok (retry_done_batches, retry_not_done)) \<Rightarrow>
                 (case collect (map (\<lambda>r. future_result env r 120)
                                 (done_batches @ retry_done_batches)) of
                    Ok validation_results_to_store \<Rightarrow> (l1 @ l2, Ok validation_results_to_store)
                  | Raise e \<Rightarrow>
                      (l1 @ l2 @
                       [error (Lit ''Error in topic_model_trainer/[r.result() for r in done_batches]: ''
                               # exc_message e)],
                       Ok []))))"

definition executor_sentinel :: "string \<Rightarrow> pyval" where
  "executor_sentinel ph =
    VDict [(''error'', VStr ''Validation get_document_topics data generation failed''),
           (''phase'', VStr ph)]"

definition submit_failed_logs :: "exc option \<Rightarrow> entry list" where
  "submit_failed_logs se =
    (case se of
       None \<Rightarrow> []
     | Some e \<Rightarrow>
         [error (Lit ''Error in topic_model_trainer/client.submit(process_batch_get_document_topics): ''
                 # exc_message e),
          error [Lit ''SOURCE OF ERROR FOUND(0)'']])"

text \<open>Lines 397 to 477: the log, \<^verbatim>\<open>batch_size\<close> and \<^verbatim>\<open>validation_results_to_store\<close>.\<close>

definition distributed_batch_executor ::
  "env \<Rightarrow> args \<Rightarrow> pyval \<Rightarrow> bow list \<Rightarrow> entry list \<times> int \<times> pyval list" where
  "distributed_batch_executor env a ldamodel c =
    (case make_batches env a c of
       (l1, batch_size, corpus_batches) \<Rightarrow>
         (case submit_batches env ldamodel 0 corpus_batches of
            (futures, se) \<Rightarrow>
              (case gather_results env futures of
                 (l3, Ok validation_results_to_store) \<Rightarrow>
                   (l1 @ submit_failed_logs se @ l3, batch_size, validation_results_to_store)
               | (l3, Raise e) \<Rightarrow>
                   (l1 @ submit_failed_logs se @ l3 @
                    [error (Lit ''[get_document_topics] Error while computing validation results task: ''
                            # exc_message e)],
                    batch_size, [executor_sentinel (phase a)]))))"

section \<open>Resilient serializer (lines 480 to 608)\<close>

text \<open>Lines 480 to 513: \<^verbatim>\<open>validation_results_jsonb\<close>.\<close>

definition serialize_validation_results :: "env \<Rightarrow> string \<Rightarrow> pyval list \<Rightarrow> field run" where
  "serialize_validation_results env ph validation_results_to_store =
    (case json_dumps env EncHook (VList validation_results_to_store) of
       Ok j \<Rightarrow> continue j
     | Raise e1 \<Rightarrow>
         andthen (logged [error (Lit ''JSON serialization failed with TypeError: '' # exc_message e1)] ())
           (\<lambda>u.
         case json_dumps env EncNumpy (VList validation_results_to_store) of
           Ok j \<Rightarrow> continue j
         | Raise e2 \<Rightarrow>
             andthen (logged [warning (Lit ''Second serialization attempt failed: '' # exc_message e2)] ())
               (\<lambda>u.
             case third_attempt env (VList validation_results_to_store) of
               Ok j \<Rightarrow> continue j
             | Raise e3 \<Rightarrow>
                 andthen (logged [error [Lit ''All JSON serialization attempts failed.'']] ()) (\<lambda>u.
                 propagate (json_dumps env EncPlain (error_sentinel ph))))))"

text \<open>
  \<^verbatim>\<open>not validation_results_jsonb\<close> (line 516): the text of \<^verbatim>\<open>json.dumps\<close> and the
  bytes of \<^verbatim>\<open>pickle.dumps\<close> are never empty.
\<close>

fun falsy :: "field \<Rightarrow> bool" where
  "falsy (Plain v) = (\<not> truthy v)"
| "falsy (JsonText enc v) = False"
| "falsy (Pickled v) = False"
| "falsy (PickledDictionary d) = False"

definition type_logs :: "pyval \<Rightarrow> entry list" where
  "type_logs item =
    (case item of
       VDict kvs \<Rightarrow> map (\<lambda>kv. error [Lit ''Type of '', Lit (fst kv), Lit '': '', Ty (py_type (snd kv))]) kvs
     | _ \<Rightarrow> [])"

text \<open>
  Lines 553 to 608, the cascade for the topic words. \<^verbatim>\<open>topics_to_store\<close> is assigned at
  line 580 only, so the handler of line 584 reads an unassigned variable when the failure
  came earlier; the inner handlers catch \<^verbatim>\<open>TypeError\<close> only.
\<close>

definition topic_words_handler :: "env \<Rightarrow> string \<Rightarrow> pyval option \<Rightarrow> exc \<Rightarrow> field run" where
  "topic_words_handler env ph topics_to_store e =
    andthen (logged [error ([Lit ''Critical failure in topic processing or serialization: '']
                            @ exc_message e
                            @ [Lit ''. Attempting second attempt with NumpyEncoder.''])] ()) (\<lambda>u.
    case topics_to_store of
      None \<Rightarrow> stop [] (Raised (Exc UnboundLocalError [Lit ''topics_to_store'']))
    | Some v \<Rightarrow>
        (case json_dumps env EncNumpy v of
           Ok j \<Rightarrow> continue j
         | Raise e2 \<Rightarrow>
             if \<not> is_TypeError e2 then stop [] (Raised e2)
             else
               andthen (logged [warning (Lit ''Second topics_to_store serialization attempt failed: ''
                                         # exc_message e2)] ()) (\<lambda>u.
               case third_attempt env v of
                 Ok j \<Rightarrow> continue j
               | Raise e3 \<Rightarrow>
                   if \<not> is_TypeError e3 then stop [] (Raised e3)
                   else
                     andthen (logged [error [Lit ''All JSON topics_to_store serialization attempts failed.'']] ())
                       (\<lambda>u.
                     propagate (json_dumps env EncPlain (error_sentinel ph))))))"

definition serialize_topic_words :: "env \<Rightarrow> args \<Rightarrow> pyval \<Rightarrow> pyval list list \<Rightarrow> field run" where
  "serialize_topic_words env a ldamodel batch_documents =
    (case topic_words_compute env ldamodel (phase a) batch_documents (cores a) of
       Raise e \<Rightarrow> topic_words_handler env (phase a) None e
     | Ok topic_words \<Rightarrow>
         (case convert_float32_to_float env topic_words of
            Raise e \<Rightarrow> topic_words_handler env (phase a) None e
          | Ok topics_to_store \<Rightarrow>
              (case json_dumps env EncPlain topics_to_store of
                 Ok j \<Rightarrow> continue j
               | Raise e \<Rightarrow> topic_words_handler env (phase a) (Some topics_to_store) e)))"

definition retrieve_failed :: "exc \<Rightarrow> 'a run" where
  "retrieve_failed e =
    stop [error (Lit ''Error while retrieving topic words: '' # exc_message e)] (Raised e)"

text \<open>
  Lines 516 to 608: everything from line 517 on is the body of
  \<^verbatim>\<open>if not validation_results_jsonb:\<close>. The result is \<^verbatim>\<open>topic_words_jsonb\<close>, which keeps
  its value of line 325 when the body is not run.
\<close>

definition topic_words_block ::
  "env \<Rightarrow> args \<Rightarrow> pyval \<Rightarrow> pyval list list \<Rightarrow> pyval list \<Rightarrow> field run" where
  "topic_words_block env a ldamodel batch_documents validation_results_to_store =
    andthen (logged (error [Lit ''Final serialization failed. Checking data types.'']
                     # concat (map type_logs validation_results_to_store)) ()) (\<lambda>u.
    if batch_documents = [] then
      stop [] (Raised (Exc ValueError [Lit ''Batch documents are empty!'']))
    else if \<not> list_all (list_all is_str) batch_documents then
      stop [] (Raised (Exc ValueError [Lit ''Batch documents have an incorrect structure!'']))
    else if (case model_num_topics env ldamodel of None \<Rightarrow> True | Some n \<Rightarrow> n \<le> 0) then
      stop [] (Raised (Exc ValueError
        [Lit ''LDAModel is not properly trained. Ensure it has been trained with valid data.'']))
    else if \<not> model_has_state env ldamodel then
      stop [] (Raised (Exc ValueError
        [Lit ''LDAModel state is missing. Training might not have been completed.'']))
    else
      (case show_topic env ldamodel 0 5 of
         Raise e \<Rightarrow> retrieve_failed e
       | Ok topic_words \<Rightarrow>
           (case show_topic env ldamodel 0 5 of
              Raise e \<Rightarrow> retrieve_failed e
            | Ok topic_words \<Rightarrow> serialize_topic_words env a ldamodel batch_documents)))"

definition topic_words_stage ::
  "env \<Rightarrow> args \<Rightarrow> pyval \<Rightarrow> pyval list list \<Rightarrow> pyval list \<Rightarrow> field \<Rightarrow> field run" where
  "topic_words_stage env a ldamodel batch_documents validation_results_to_store
      validation_results_jsonb =
    andthen (propagate (json_dumps env EncPlain not_initialized)) (\<lambda>topic_words_jsonb.
    if falsy validation_results_jsonb then
      topic_words_block env a ldamodel batch_documents validation_results_to_store
    else continue topic_words_jsonb)"

section \<open>Metadata assembler (lines 611 to 737)\<close>

definition unique_primary_key :: "env \<Rightarrow> string" where
  "unique_primary_key env =
    md5 env (md5 env (combined_random_value env) @ md5 env (strftime_now env))"

definition number_of_topics :: "env \<Rightarrow> args \<Rightarrow> string" where
  "number_of_topics env a = ''number_of_topics-'' @ py_str env (VInt (n_topics a))"

text \<open>
  Line 639: the join of the four deferred values. Its arguments are read first, so an
  unassigned \<^verbatim>\<open>topics_to_store_task\<close> raises before anything is forced; an exception of a
  forced task is raised by \<^verbatim>\<open>dask.compute\<close> (when several tasks fail, the model reports
  the first in the order of the arguments).
\<close>

definition join_tasks ::
  "pyval outcome \<Rightarrow> pyval outcome \<Rightarrow> pyval outcome \<Rightarrow> task option
    \<Rightarrow> (pyval \<times> pyval \<times> pyval \<times> pyval) run" where
  "join_tasks threshold convergence perplexity topics_to_store_task =
    (case topics_to_store_task of
       None \<Rightarrow> stop [] (Raised (Exc UnboundLocalError [Lit ''topics_to_store_task'']))
     | Some t \<Rightarrow>
         propagate
           (obind threshold (\<lambda>th.
            obind convergence (\<lambda>cv.
            obind perplexity (\<lambda>pp.
            obind (t 1) (\<lambda>ts. Ok (th, cv, pp, ts)))))))"

text \<open>Lines 644 to 649: a payload whose text is the text of the placeholder.\<close>

fun is_placeholder :: "field \<Rightarrow> bool" where
  "is_placeholder (JsonText enc v) = (v = not_initialized)"
| "is_placeholder f = False"

definition placeholder_warnings :: "field \<Rightarrow> field \<Rightarrow> field \<Rightarrow> entry list" where
  "placeholder_warnings topic_words_jsonb topics_results_jsonb validation_results_jsonb =
    (if is_placeholder topic_words_jsonb
     then [warning [Lit ''topic_words_jsonb is still using the default placeholder!'']] else [])
    @ (if is_placeholder topics_results_jsonb
       then [warning [Lit ''topics_results_jsonb is still using the default placeholder!'']] else [])
    @ (if is_placeholder validation_results_jsonb
       then [warning [Lit ''validation_results_jsonb is still using the default placeholder!'']] else [])"

text \<open>Line 661: joining with a blank raises \<^verbatim>\<open>TypeError\<close> on an item that is not a
  string.\<close>

fun the_str :: "pyval \<Rightarrow> string" where
  "the_str (VStr s) = s"
| "the_str v = []"

fun join_with :: "string \<Rightarrow> string list \<Rightarrow> string" where
  "join_with sep [] = []"
| "join_with sep [x] = x"
| "join_with sep (x # y # zs) = x @ sep @ join_with sep (y # zs)"

definition join_tokens :: "pyval list \<Rightarrow> string outcome" where
  "join_tokens flattened_batch =
    (if list_all is_str flattened_batch then Ok (join_with '' '' (map the_str flattened_batch))
     else Raise (Exc TypeError [Lit ''sequence item: expected str instance'']))"

text \<open>Line 714: \<^verbatim>\<open>ldamodel_bytes.compute()\<close>. A \<^verbatim>\<open>bytes\<close> object has no attribute
  \<^verbatim>\<open>compute\<close>; a delayed call is forced.\<close>

definition compute_model_bytes :: "model_bytes \<Rightarrow> field outcome" where
  "compute_model_bytes mb =
    (case mb of
       Bytes b \<Rightarrow> Raise (Exc AttributeError [Ty ''bytes'', Lit '' object has no attribute compute''])
     | DelayedBytes forced \<Rightarrow> forced)"

text \<open>
  Modelled from the spec: \<^verbatim>\<open>safe_serialize_for_postgres\<close> of \<^verbatim>\<open>utils.py\<close>, which is not
  among the sources. The spec describes the store-compatible variant as the same mapping
  with all numeric-array values converted to plain scalars or lists.
\<close>

fun safe_serialize_for_postgres :: "field \<Rightarrow> field" where
  "safe_serialize_for_postgres (Plain (VNdarray xs)) = Plain (VList xs)"
| "safe_serialize_for_postgres f = f"

text \<open>The local variables the mapping of lines 664 to 722 is built from.\<close>

record locals =
  l_batch_documents :: "pyval list list"
  l_dictionary :: gdict
  l_chunksize :: int
  l_n_alpha :: pyval
  l_n_beta :: pyval
  l_max_attempts :: int
  l_coherence :: coherence_family
  l_batch_size :: int
  l_num_words :: int
  l_topic_words_jsonb :: field
  l_topics_results_jsonb :: field
  l_validation_results_jsonb :: field
  l_threshold :: pyval
  l_convergence_score :: pyval
  l_perplexity_score :: pyval
  l_flattened_batch_str :: string
  l_lda_model :: field

text \<open>
  Lines 664 to 722. \<^verbatim>\<open>negative_log_likelihood\<close> is \<^verbatim>\<open>DEFAULT_SCORE\<close> (line 207) and
  \<^verbatim>\<open>corpus_to_pickle\<close> is the empty string (line 154); neither is assigned again.
\<close>

definition current_increment_data :: "env \<Rightarrow> args \<Rightarrow> locals \<Rightarrow> (string \<times> field) list" where
  "current_increment_data env a v =
    (let flattened_batch = concat (l_batch_documents v);
         negative_log_likelihood = DEFAULT_SCORE;
         corpus_to_pickle = VStr []
     in
    [(''time_key'', Plain (VStr (unique_primary_key env))),
     (''type'', Plain (VStr (phase a))),
     (''start_time'', Plain (datetime_now env)),
     (''end_time'', Plain (timestamp_now env)),
     (''num_workers'', Plain VNone),
     (''batch_size'', Plain (VInt (l_batch_size v))),
     (''num_word'', Plain (VInt (if l_num_words v \<noteq> - 1 then int (length flattened_batch) else - 1))),
     (''text'', Pickled (VList flattened_batch)),
     (''text_json'', Pickled (VList (map VList (l_batch_documents v)))),
     (''max_attempts'', Plain (VInt (l_max_attempts v))),
     (''top_topics'', l_topic_words_jsonb v),
     (''topics_words'', l_topics_results_jsonb v),
     (''validation_result'', l_validation_results_jsonb v),
     (''text_sha256'', Plain (VStr (sha256 env (l_flattened_batch_str v)))),
     (''text_md5'', Plain (VStr (md5 env (l_flattened_batch_str v)))),
     (''text_path'', Plain (VStr (path_join env [zip_path a, phase a, number_of_topics env a]))),
     (''pca_path'', Plain (VStr (path_join env [pca_path a, phase a, number_of_topics env a]))),
     (''pca_gpu_path'', Plain (VStr (path_join env [pca_gpu_path a, phase a, number_of_topics env a]))),
     (''pylda_path'', Plain (VStr (path_join env [pylda_path a, phase a, number_of_topics env a]))),
     (''topics'', Plain (VInt (n_topics a))),
     (''alpha_str'', Plain (VStr (py_str env (alpha_str a)))),
     (''n_alpha'', Plain (l_n_alpha v)),
     (''beta_str'', Plain (VStr (py_str env (beta_str a)))),
     (''n_beta'', Plain (l_n_beta v)),
     (''passes'', Plain (VInt (passes a))),
     (''iterations'', Plain (VInt (iterations a))),
     (''update_every'', Plain (VInt (update_every a))),
     (''eval_every'', Plain (VInt (eval_every a))),
     (''chunksize'', Plain (VStr (py_str env (VInt (l_chunksize v))))),
     (''random_state'', Plain (VInt (random_state a))),
     (''per_word_topics'', Plain (VBool (per_word_topics a))),
     (''convergence'', Plain (l_convergence_score v)),
     (''nll'', Plain negative_log_likelihood),
     (''perplexity'', Plain (l_perplexity_score v)),
     (''coherence'', Plain (coherence_score (l_coherence v))),
     (''mean_coherence'', Plain (mean_coherence (l_coherence v))),
     (''median_coherence'', Plain (median_coherence (l_coherence v))),
     (''mode_coherence'', Plain (mode_coherence (l_coherence v))),
     (''std_coherence'', Plain (std_coherence (l_coherence v))),
     (''perplexity_threshold'', Plain (l_threshold v)),
     (''lda_model'', l_lda_model v),
     (''corpus'', Plain corpus_to_pickle),
     (''dictionary'', PickledDictionary (l_dictionary v)),
     (''create_pylda'', Plain VNone),
     (''create_pcoa'', Plain VNone),
     (''create_pca_gpu'', Plain VNone)])"

text \<open>Lines 725 to 727: the mapping that is returned.\<close>

definition db_data :: "(string \<times> field) list \<Rightarrow> (string \<times> field) list" where
  "db_data d = map (\<lambda>kv. (fst kv, safe_serialize_for_postgres (snd kv))) d"

section \<open>The function\<close>

definition total :: "entry list \<times> 'a \<Rightarrow> 'a run" where
  "total m = (fst m, Continue (snd m))"

text \<open>
  \<^verbatim>\<open>train_model_v2\<close>, in the order of the source, in two halves: lines 63 to 258
  (\<open>prepare\<close>) and lines 260 to 737 (\<open>conclude\<close>). The three calls of
  \<^verbatim>\<open>json.dumps\<close> on the placeholder (lines 324 to 326) cannot fail; the one whose value
  can survive, that of \<^verbatim>\<open>topic_words_jsonb\<close>, is made in \<open>topic_words_stage\<close>. The
  hashes and paths of lines 615 to 636 are computed where the mapping uses them.
\<close>

text \<open>What lines 63 to 258 leave for the rest of the function.\<close>

record prepared =
  p_batch_documents :: "pyval list list"
  p_corpus_state :: corpus_state
  p_n_alpha :: pyval
  p_n_beta :: pyval
  p_ldamodel :: pyval
  p_ldamodel_bytes :: model_bytes
  p_threshold :: "pyval outcome"
  p_max_attempts :: int

definition prepare :: "env \<Rightarrow> args \<Rightarrow> prepared run" where
  "prepare env a =
    andthen (propagate (get_client env)) (\<lambda>client.
    andthen (total (normalize_documents env (validation_test_data a))) (\<lambda>bd.
    andthen (check_structure bd) (\<lambda>batch_documents.
    andthen (corpus_builder env a batch_documents) (\<lambda>cs.
    andthen (propagate (calculate_numeric_alpha env (alpha_str a) (n_topics a))) (\<lambda>n_alpha.
    andthen (propagate (calculate_numeric_beta env (beta_str a) (n_topics a))) (\<lambda>n_beta.
    andthen (model_stage env a (corpus cs) n_alpha n_beta (chunksize cs)) (\<lambda>m.
    andthen (total (threshold_task env a (fst m) (corpus cs))) (\<lambda>threshold.
    andthen (propagate (estimate_batches_large_docs_v2 env (data_source a) 5 50 (2 / 5) 3))
      (\<lambda>max_attempts.
    continue
      \<lparr>p_batch_documents = batch_documents, p_corpus_state = cs, p_n_alpha = n_alpha,
       p_n_beta = n_beta, p_ldamodel = fst m, p_ldamodel_bytes = snd m,
       p_threshold = threshold, p_max_attempts = max_attempts\<rparr>)))))))))"

text \<open>Lines 260 to 737, from the coherence metrics to the returned mapping.\<close>

definition conclude :: "env \<Rightarrow> args \<Rightarrow> prepared \<Rightarrow> (string \<times> field) list run" where
  "conclude env a p =
    (let batch_documents = p_batch_documents p; ldamodel = p_ldamodel p;
         c = corpus (p_corpus_state p)
     in
    andthen (total (coherence_stage env a ldamodel batch_documents (p_max_attempts p)))
      (\<lambda>coherence.
    andthen (total (convergence_task env ldamodel c)) (\<lambda>convergence.
    andthen (total (perplexity_task env ldamodel c)) (\<lambda>perplexity.
    andthen (extract_topics env a ldamodel (count_words c)) (\<lambda>topics.
    andthen (total (distributed_batch_executor env a ldamodel c)) (\<lambda>executed.
    andthen (serialize_validation_results env (phase a) (snd executed))
      (\<lambda>validation_results_jsonb.
    andthen (topic_words_stage env a ldamodel batch_documents (snd executed)
               validation_results_jsonb) (\<lambda>topic_words_jsonb.
    andthen (join_tasks (p_threshold p) convergence perplexity (fst topics)) (\<lambda>joined.
    andthen (logged (placeholder_warnings topic_words_jsonb (snd topics)
                       validation_results_jsonb) ()) (\<lambda>u.
    andthen (propagate (join_tokens (concat batch_documents))) (\<lambda>joined_text.
    andthen (propagate (compute_model_bytes (p_ldamodel_bytes p))) (\<lambda>lda_model.
    continue (db_data (current_increment_data env a
      \<lparr>l_batch_documents = batch_documents,
       l_dictionary = train_val_test_dictionary (p_corpus_state p),
       l_chunksize = chunksize (p_corpus_state p),
       l_n_alpha = p_n_alpha p,
       l_n_beta = p_n_beta p,
       l_max_attempts = p_max_attempts p,
       l_coherence = coherence,
       l_batch_size = fst executed,
       l_num_words = count_words c,
       l_topic_words_jsonb = topic_words_jsonb,
       l_topics_results_jsonb = snd topics,
       l_validation_results_jsonb = validation_results_jsonb,
       l_threshold = fst joined,
       l_convergence_score = fst (snd joined),
       l_perplexity_score = fst (snd (snd joined)),
       l_flattened_batch_str = joined_text @ unique_primary_key env,
       l_lda_model = lda_model\<rparr>))))))))))))))"

definition pipeline :: "env \<Rightarrow> args \<Rightarrow> (string \<times> field) list run" where
  "pipeline env a = andthen (prepare env a) (conclude env a)"

definition train_model_v2 :: "env \<Rightarrow> args \<Rightarrow> entry list \<times> result" where
  "train_model_v2 env a =
    (case pipeline env a of
       (l, Continue r) \<Rightarrow> (l, Record r)
     | (l, Stop r) \<Rightarrow> (l, Abort r))"

section \<open>An example environment\<close>

text \<open>
  Concrete collaborators for running the model. The gensim dictionary behaves as the
  library documents it: \<^verbatim>\<open>Dictionary(documents)\<close> numbers the new tokens of each document
  in sorted order, and \<^verbatim>\<open>doc2bow\<close> counts the tokens the dictionary knows and returns the
  pairs sorted by id.
\<close>

definition gensim_add_document :: "gdict \<Rightarrow> pyval list \<Rightarrow> gdict" where
  "gensim_add_document d doc =
    (let missing = sort (filter (\<lambda>w. map_of d w = None) (remdups (map the_str doc)))
     in d @ zip missing [length d..<length d + length missing])"

definition gensim_Dictionary :: "pyval list list \<Rightarrow> gdict outcome" where
  "gensim_Dictionary docs = Ok (foldl gensim_add_document [] docs)"

definition gensim_doc2bow :: "gdict \<Rightarrow> pyval list \<Rightarrow> bow outcome" where
  "gensim_doc2bow d doc =
    (let tokens = map the_str doc
     in Ok (sort_key fst
          (concat (map (\<lambda>w. case map_of d w of None \<Rightarrow> [] | Some i \<Rightarrow> [(i, count_list tokens w)])
                     (remdups tokens)))))"

text \<open>Decimal digits, for \<^verbatim>\<open>str\<close> of a number that is not negative.\<close>

fun decimal :: "nat \<Rightarrow> string" where
  "decimal n =
    (if n < 10 then [char_of (48 + n)] else decimal (n div 10) @ [char_of (48 + n mod 10)])"

definition example_str :: "pyval \<Rightarrow> string" where
  "example_str v = (case v of VInt i \<Rightarrow> decimal (nat i) | VStr s \<Rightarrow> s | _ \<Rightarrow> ''object'')"

definition example_stats :: "(string \<times> pyval) list" where
  "example_stats =
    [(''coherence_score'', VFloat (2 / 5)), (''mean_coherence'', VFloat (3 / 8)),
     (''median_coherence'', VFloat (3 / 8)), (''std_coherence'', VFloat (1 / 20)),
     (''mode_coherence'', VFloat (3 / 8))]"

definition example_topics :: pyval where
  "example_topics = VList [VDict [(''topic_id'', VInt 0), (''words'', VList [VStr ''a'', VStr ''b''])]]"

definition example_env :: env where
  "example_env =
    \<lparr>get_client = Ok (),
     str_of = example_str,
     Dictionary = gensim_Dictionary,
     doc2bow = gensim_doc2bow,
     calculate_numeric_alpha = (\<lambda>s n. Ok (VFloat (1 / 2))),
     calculate_numeric_beta = (\<lambda>s n. Ok (VFloat (1 / 2))),
     pickle_error = (\<lambda>v. None),
     LdaModel = (\<lambda>c d n al et rs ps it ue ee ch. Ok (VObj 1)),
     delayed_error = (\<lambda>name. None),
     estimate_batches_large_docs_v2 = (\<lambda>ds lo hi ratio cpu. Ok (min hi (max lo 2))),
     calculate_perplexity_threshold = (\<lambda>m c d. Ok (VFloat (7 / 10))),
     calculate_torch_coherence = (\<lambda>ds m docs d. Ok (VFloat (2 / 5))),
     calculate_coherence_metrics = (\<lambda>d t m u docs cs ma. Ok example_stats),
     calculate_convergence = (\<lambda>m c d. Ok (VFloat (9 / 10))),
     calculate_perplexity_score = (\<lambda>m c d. Ok (VFloat (3 / 5))),
     rng_choice = (\<lambda>seed values. values ! nat (seed mod int (length values))),
     extract_topics_with_get_topic_terms = (\<lambda>m n. Ok (\<lambda>occasion. Ok example_topics)),
     convert_float32_to_float = (\<lambda>v. Ok v),
     json_error = (\<lambda>enc v. Some (Exc TypeError [Lit ''Object is not JSON serializable''])),
     astype_float_tolist = (\<lambda>v. Ok (VList (items v))),
     applymap_float = (\<lambda>v. Ok v),
     submit = (\<lambda>idx m b r. Ok idx),
     wait = (\<lambda>occasion fs t. Ok (fs, [])),
     future_status = (\<lambda>f. ''finished''),
     future_exception = (\<lambda>f. VNone),
     retry = (\<lambda>f. Ok f),
     future_result = (\<lambda>f t. Ok (VList [VList [VTuple [VInt 0, VFloat 1]]])),
     model_num_topics = (\<lambda>m. Some 2),
     model_has_state = (\<lambda>m. True),
     show_topic = (\<lambda>m t n. Ok (VList [])),
     topic_words_compute = (\<lambda>m ph docs cs. Ok (VList [VList [VStr ''a'']])),
     combined_random_value = ''1.5_7'',
     strftime_now = ''20240401120000000000'',
     datetime_now = VObj 2,
     timestamp_now = VObj 3,
     md5 = (\<lambda>s. ''md5:'' @ s),
     sha256 = (\<lambda>s. ''sha256:'' @ s),
     path_join = join_with ''/''\<rparr>"

definition example_args :: args where
  "example_args =
    \<lparr>data_source = ''corpus'',
     n_topics = 2,
     alpha_str = VStr ''symmetric'',
     beta_str = VStr ''auto'',
     zip_path = ''zip'',
     pylda_path = ''pylda'',
     pca_path = ''pca'',
     pca_gpu_path = ''pca_gpu'',
     unified_dictionary = [(''b'', 0), (''a'', 1), (''c'', 2)],
     validation_test_data =
       Ok [VList [VStr ''a'', VStr ''a'', VStr ''b''], VList [VStr ''c''], VList [VStr ''b'', VStr ''c'']],
     phase = ''train'',
     random_state = 75,
     passes = 1,
     iterations = 50,
     update_every = 1,
     eval_every = 1,
     cores = 3,
     per_word_topics = True,
     ldamodel_parameter = VNone\<rparr>"

definition example_record :: "(string \<times> field) list" where
  "example_record =
    (case snd (train_model_v2 example_env example_args) of Record r \<Rightarrow> r | Abort x \<Rightarrow> [])"

text \<open>The example environment with a resampling that fails when it is forced.\<close>

definition degraded_env :: env where
  "degraded_env =
    example_env\<lparr>calculate_coherence_metrics :=
      (\<lambda>d t m u docs cs ma. Raise (Exc OtherException [Lit ''resampling failed'']))\<rparr>"

text \<open>What the first half of the example call leaves, with this environment.\<close>

definition degraded_prepared :: prepared where
  "degraded_prepared =
    \<lparr>p_batch_documents =
       [[VStr ''a'', VStr ''a'', VStr ''b''], [VStr ''c''], [VStr ''b'', VStr ''c'']],
     p_corpus_state =
       \<lparr>train_val_test_dictionary = [(''a'', 0), (''b'', 1), (''c'', 2)],
        corpus = [[(0, 2), (1, 1)], [(2, 1)], [(1, 1), (2, 1)]],
        number_of_documents = 3, failed_convert_token_to_bow = 0, chunksize = 1\<rparr>,
     p_n_alpha = VFloat (1 / 2),
     p_n_beta = VFloat (1 / 2),
     p_ldamodel = VObj 1,
     p_ldamodel_bytes = DelayedBytes (Ok (Pickled (VObj 1))),
     p_threshold = Ok (VFloat (7 / 10)),
     p_max_attempts = 5\<rparr>"

definition degraded_record :: "(string \<times> field) list" where
  "degraded_record =
    (case snd (train_model_v2 degraded_env example_args) of Record r \<Rightarrow> r | Abort x \<Rightarrow> [])"

text \<open>The example call, with an integer among the documents.\<close>

definition mixed_args :: args where
  "mixed_args =
    example_args\<lparr>validation_test_data :=
      Ok [VList [VStr ''a'', VStr ''b''], VInt 7, VList [VStr ''c'']]\<rparr>"

text \<open>The normalized documents of the example call.\<close>

definition example_docs :: "pyval list list" where
  "example_docs = [[VStr ''a'', VStr ''a'', VStr ''b''], [VStr ''c''], [VStr ''b'', VStr ''c'']]"

text \<open>
  The example environment with a batch-size heuristic that raises when it is asked for the
  executor's batch size (bounds 1 and 15), and the corpus of the example call.
\<close>

definition fallback_env :: env where
  "fallback_env =
    example_env\<lparr>estimate_batches_large_docs_v2 :=
      (\<lambda>ds lo hi ratio cpu.
         if hi = 15 then Raise (Exc OtherException [Lit ''no memory information'']) else Ok lo)\<rparr>"

definition example_corpus :: "bow list" where
  "example_corpus = [[(0, 2), (1, 1)], [(2, 1)], [(1, 1), (2, 1)]]"




text \<open>The example environment with metric functions that all raise when they are called.\<close>

definition metric_failed :: exc where
  "metric_failed = Exc OtherException [Lit ''metric failed'']"

definition metric_fail_env :: env where
  "metric_fail_env =
    example_env\<lparr>calculate_perplexity_threshold := (\<lambda>m c d. Raise metric_failed),
      calculate_torch_coherence := (\<lambda>ds m docs d. Raise metric_failed),
      calculate_coherence_metrics := (\<lambda>d t m u docs cs ma. Raise metric_failed),
      calculate_convergence := (\<lambda>m c d. Raise metric_failed),
      calculate_perplexity_score := (\<lambda>m c d. Raise metric_failed)\<rparr>"

definition metric_fail_prepared :: prepared where
  "metric_fail_prepared = degraded_prepared\<lparr>p_threshold := Raise metric_failed\<rparr>"




text \<open>The example environment with a topic-extraction task that fails when line 350
  forces it.\<close>

definition topics_fail_env :: env where
  "topics_fail_env =
    example_env\<lparr>extract_topics_with_get_topic_terms :=
      (\<lambda>m n. Ok (\<lambda>occasion. if occasion = 0 then Raise (Exc OtherException [Lit ''worker lost''])
                             else Ok example_topics))\<rparr>"

definition topics_fail_record :: "(string \<times> field) list" where
  "topics_fail_record =
    (case snd (train_model_v2 topics_fail_env example_args) of Record r \<Rightarrow> r | Abort x \<Rightarrow> [])"

section \<open>How a call that returns a mapping went\<close>

lemma andthen_Continue:
  "andthen m f = (l, Continue y) \<longleftrightarrow>
     (\<exists>l1 x l2. m = (l1, Continue x) \<and> f x = (l2, Continue y) \<and> l = l1 @ l2)"
  by (cases m) (auto simp: andthen_def split: step.splits prod.splits)

lemma continue_Continue: "continue x = (l, Continue y) \<longleftrightarrow> l = [] \<and> y = x"
  by (auto simp: continue_def)

lemma total_Continue: "total m = (l, Continue y) \<longleftrightarrow> l = fst m \<and> y = snd m"
  by (auto simp: total_def)

lemma conclude_record:
  assumes "conclude env a p = (l, Continue r)"
  shows "\<exists>v. r = db_data (current_increment_data env a v)
    \<and> l_coherence v =
        snd (coherence_stage env a (p_ldamodel p) (p_batch_documents p) (p_max_attempts p))"
  using assms unfolding conclude_def Let_def andthen_Continue continue_Continue total_Continue
  apply (elim exE conjE)
  apply (rule exI, rule conjI, assumption)
  apply (simp only: locals.select_convs)
  done

lemma train_model_v2_Record:
  "snd (train_model_v2 env a) = Record r \<longleftrightarrow> (\<exists>l. pipeline env a = (l, Continue r))"
  by (cases "pipeline env a") (auto simp: train_model_v2_def split: step.splits)

lemma pipeline_Continue:
  "pipeline env a = (l, Continue r) \<longleftrightarrow>
    (\<exists>l1 p l2. prepare env a = (l1, Continue p) \<and> conclude env a p = (l2, Continue r)
       \<and> l = l1 @ l2)"
  by (simp add: pipeline_def andthen_Continue)

lemma returned_record:
  assumes "snd (train_model_v2 env a) = Record r"
  shows "\<exists>v. r = db_data (current_increment_data env a v)"
proof -
  from assms obtain l2 p where "conclude env a p = (l2, Continue r)"
    by (auto simp: train_model_v2_Record pipeline_Continue)
  then show ?thesis
    using conclude_record by blast
qed

lemma map_of_db_data:
  "map_of (db_data d) k = map_option safe_serialize_for_postgres (map_of d k)"
  by (induction d) (auto simp: db_data_def)

lemma corpus_field:
  "map_of (current_increment_data env a v) ''corpus'' = Some (Plain (VStr []))"
  by (simp add: current_increment_data_def Let_def)

lemma nll_field:
  "map_of (current_increment_data env a v) ''nll'' = Some (Plain DEFAULT_SCORE)"
  by (simp add: current_increment_data_def Let_def)

lemma example_returns:
  "snd (train_model_v2 example_env example_args) = Record example_record"
  by code_simp

section \<open>Claims\<close>

text \<open>
  C9. Whenever the call returns a mapping, its \<^verbatim>\<open>corpus\<close> entry is the empty string:
  \<^verbatim>\<open>corpus_to_pickle\<close> is set to the empty string at line 154 and nothing assigns it
  again.
\<close>

theorem corpus_field_is_empty_string:
  assumes "snd (train_model_v2 env a) = Record r"
  shows "map_of r ''corpus'' = Some (Plain (VStr ''''))"
proof -
  from assms obtain v where "r = db_data (current_increment_data env a v)"
    using returned_record by blast
  then show ?thesis
    by (simp add: map_of_db_data corpus_field)
qed

theorem corpus_field_is_empty_string_witness:
  "snd (train_model_v2 example_env example_args) = Record example_record
   \<and> map_of example_record ''corpus'' = Some (Plain (VStr ''''))"
  using corpus_field_is_empty_string [OF example_returns] example_returns by simp

text \<open>
  C10. Whenever the call returns a mapping, its \<^verbatim>\<open>nll\<close> entry is the default score
  0.25: \<^verbatim>\<open>negative_log_likelihood\<close> is set to \<^verbatim>\<open>DEFAULT_SCORE\<close> at line 207 and nothing
  computes or assigns it again.
\<close>

theorem nll_field_is_default_score:
  assumes "snd (train_model_v2 env a) = Record r"
  shows "map_of r ''nll'' = Some (Plain DEFAULT_SCORE) \<and> DEFAULT_SCORE = VFloat (1 / 4)"
proof -
  from assms obtain v where "r = db_data (current_increment_data env a v)"
    using returned_record by blast
  then show ?thesis
    by (simp add: map_of_db_data nll_field DEFAULT_SCORE_def)
qed

theorem nll_field_is_default_score_witness:
  "snd (train_model_v2 example_env example_args) = Record example_record
   \<and> map_of example_record ''nll'' = Some (Plain (VFloat (1 / 4)))"
  using nll_field_is_default_score [OF example_returns] example_returns
  by (simp add: DEFAULT_SCORE_def)

lemma coherence_fields:
  "map_of (current_increment_data env a v) ''coherence'' = Some (Plain (coherence_score (l_coherence v)))"
  "map_of (current_increment_data env a v) ''mean_coherence'' = Some (Plain (mean_coherence (l_coherence v)))"
  "map_of (current_increment_data env a v) ''median_coherence'' = Some (Plain (median_coherence (l_coherence v)))"
  "map_of (current_increment_data env a v) ''mode_coherence'' = Some (Plain (mode_coherence (l_coherence v)))"
  "map_of (current_increment_data env a v) ''std_coherence'' = Some (Plain (std_coherence (l_coherence v)))"
  by (simp_all add: current_increment_data_def Let_def)

lemma coherence_stage_fallback:
  assumes "resample_coherence env a m docs (snd (primary_coherence env a m docs)) ma = Raise e"
  shows "snd (coherence_stage env a m docs ma) = fallback_coherence env"
  using assms by (cases "primary_coherence env a m docs") (simp add: coherence_stage_def)

lemma length_fallback_coherence_values: "length fallback_coherence_values = 10"
  by (simp add: fallback_coherence_values_def linspace_def)

lemma fallback_coherence_fields:
  "coherence_score (fallback_coherence env) = VFloat (rng_choice env 8241984 fallback_coherence_values)"
  "mean_coherence (fallback_coherence env) = VFloat (rng_choice env 8241984 fallback_coherence_values)"
  "median_coherence (fallback_coherence env) = VFloat (rng_choice env 8241984 fallback_coherence_values)"
  "mode_coherence (fallback_coherence env) = VFloat (rng_choice env 8241984 fallback_coherence_values)"
  "std_coherence (fallback_coherence env) = VFloat (rng_choice env 8241984 fallback_coherence_values)"
  by (simp_all add: fallback_coherence_def Let_def)

lemma degraded_prepares:
  "prepare degraded_env example_args = ([], Continue degraded_prepared)"
  by code_simp

lemma degraded_resampling_fails:
  "resample_coherence degraded_env example_args (p_ldamodel degraded_prepared)
     (p_batch_documents degraded_prepared)
     (snd (primary_coherence degraded_env example_args (p_ldamodel degraded_prepared)
        (p_batch_documents degraded_prepared)))
     (p_max_attempts degraded_prepared) = Raise (Exc OtherException [Lit ''resampling failed''])"
  by code_simp

lemma degraded_returns:
  "snd (train_model_v2 degraded_env example_args) = Record degraded_record"
  by code_simp

text \<open>
  C8. Whenever the resampling stage of the coherence metrics fails (lines 272 to 292
  raise), the five statistics are one value, the draw that the generator seeded with
  8241984 makes from the ten candidates \<^verbatim>\<open>np.linspace(0.01, 0.5, 10)\<close>; a returned mapping
  carries it in its five coherence entries; and any other run whose resampling fails, under
  the same generator, has the same five statistics.
\<close>

theorem coherence_fallback_is_one_fixed_draw:
  assumes prep: "prepare env a = (l, Continue p)"
    and fails: "resample_coherence env a (p_ldamodel p) (p_batch_documents p)
        (snd (primary_coherence env a (p_ldamodel p) (p_batch_documents p)))
        (p_max_attempts p) = Raise e"
  shows "(let stats = snd (coherence_stage env a (p_ldamodel p) (p_batch_documents p)
             (p_max_attempts p));
             draw = VFloat (rng_choice env 8241984 (linspace (1 / 100) (1 / 2) 10))
         in coherence_score stats = draw \<and> mean_coherence stats = draw
            \<and> median_coherence stats = draw \<and> mode_coherence stats = draw
            \<and> std_coherence stats = draw
            \<and> length (linspace (1 / 100) (1 / 2) 10) = 10
            \<and> (\<forall>r. snd (train_model_v2 env a) = Record r \<longrightarrow>
                  map_of r ''coherence'' = Some (Plain draw)
                  \<and> map_of r ''mean_coherence'' = Some (Plain draw)
                  \<and> map_of r ''median_coherence'' = Some (Plain draw)
                  \<and> map_of r ''mode_coherence'' = Some (Plain draw)
                  \<and> map_of r ''std_coherence'' = Some (Plain draw))
            \<and> (\<forall>env' a' l' p' e'.
                  prepare env' a' = (l', Continue p')
                  \<and> resample_coherence env' a' (p_ldamodel p') (p_batch_documents p')
                       (snd (primary_coherence env' a' (p_ldamodel p') (p_batch_documents p')))
                       (p_max_attempts p') = Raise e'
                  \<and> rng_choice env' = rng_choice env \<longrightarrow>
                  snd (coherence_stage env' a' (p_ldamodel p') (p_batch_documents p')
                         (p_max_attempts p')) = stats))"
proof -
  let ?stats = "snd (coherence_stage env a (p_ldamodel p) (p_batch_documents p) (p_max_attempts p))"
  let ?draw = "VFloat (rng_choice env 8241984 (linspace (1 / 100) (1 / 2) 10))"
  have stats: "?stats = fallback_coherence env"
    using fails by (rule coherence_stage_fallback)
  have five: "coherence_score ?stats = ?draw" "mean_coherence ?stats = ?draw"
    "median_coherence ?stats = ?draw" "mode_coherence ?stats = ?draw" "std_coherence ?stats = ?draw"
    by (simp_all only: stats fallback_coherence_fields fallback_coherence_values_def)
  have len: "length (linspace (1 / 100) (1 / 2) 10) = 10"
    using length_fallback_coherence_values by (simp only: fallback_coherence_values_def)
  have rec: "map_of r ''coherence'' = Some (Plain ?draw)
      \<and> map_of r ''mean_coherence'' = Some (Plain ?draw)
      \<and> map_of r ''median_coherence'' = Some (Plain ?draw)
      \<and> map_of r ''mode_coherence'' = Some (Plain ?draw)
      \<and> map_of r ''std_coherence'' = Some (Plain ?draw)"
    if "snd (train_model_v2 env a) = Record r" for r
  proof -
    from that obtain l1 p1 l2 where p1: "prepare env a = (l1, Continue p1)"
      and c: "conclude env a p1 = (l2, Continue r)"
      by (auto simp: train_model_v2_Record pipeline_Continue)
    from p1 prep have "p1 = p" by simp
    with c obtain v where r: "r = db_data (current_increment_data env a v)"
      and v: "l_coherence v = ?stats"
      using conclude_record by blast
    show ?thesis
      by (simp add: r map_of_db_data coherence_fields v five)
  qed
  have two: "snd (coherence_stage env' a' (p_ldamodel p') (p_batch_documents p')
                 (p_max_attempts p')) = ?stats"
    if "resample_coherence env' a' (p_ldamodel p') (p_batch_documents p')
          (snd (primary_coherence env' a' (p_ldamodel p') (p_batch_documents p')))
          (p_max_attempts p') = Raise e'"
      and "rng_choice env' = rng_choice env" for env' a' p' e'
    using coherence_stage_fallback [OF that(1)] that(2) stats
    by (simp add: fallback_coherence_def)
  show ?thesis
    unfolding Let_def using five len rec two by blast
qed

theorem coherence_fallback_is_one_fixed_draw_witness:
  "prepare degraded_env example_args = ([], Continue degraded_prepared)
   \<and> snd (train_model_v2 degraded_env example_args) = Record degraded_record
   \<and> coherence_score (snd (coherence_stage degraded_env example_args (p_ldamodel degraded_prepared)
        (p_batch_documents degraded_prepared) (p_max_attempts degraded_prepared)))
       = VFloat (rng_choice degraded_env 8241984 (linspace (1 / 100) (1 / 2) 10))
   \<and> map_of degraded_record ''coherence''
       = Some (Plain (VFloat (rng_choice degraded_env 8241984 (linspace (1 / 100) (1 / 2) 10))))
   \<and> map_of degraded_record ''std_coherence''
       = Some (Plain (VFloat (rng_choice degraded_env 8241984 (linspace (1 / 100) (1 / 2) 10))))"
  using coherence_fallback_is_one_fixed_draw [OF degraded_prepares degraded_resampling_fails]
    degraded_prepares degraded_returns
  by (simp add: Let_def)

section \<open>The normalizer\<close>

lemma andthen_Stop: "andthen (l, Stop r) f = (l, Stop r)"
  by (simp add: andthen_def)

lemma andthen_Continue_eq: "andthen (l, Continue x) f = (l @ fst (f x), snd (f x))"
  by (simp add: andthen_def split: prod.splits)

lemma first_pass_length:
  "first_pass env idx docs = (l, ds, e) \<Longrightarrow> length ds = length docs"
  by (induction docs arbitrary: idx l ds e)
     (auto split: option.splits bool.splits if_splits prod.splits)

lemma first_pass_keeps:
  "first_pass env idx docs = (l, ds, e) \<Longrightarrow> i < length docs
    \<Longrightarrow> \<not> is_str (docs ! i) \<Longrightarrow> \<not> is_list (docs ! i) \<Longrightarrow> ds ! i = docs ! i"
proof (induction docs arbitrary: idx l ds e i)
  case Nil
  then show ?case by simp
next
  case (Cons doc rest)
  show ?case
  proof (cases i)
    case 0
    with Cons.prems show ?thesis
      by (auto split: option.splits bool.splits if_splits prod.splits)
  next
    case (Suc k)
    with Cons.prems Cons.IH [of "Suc idx" _ _ _ k] show ?thesis
      by (auto split: option.splits bool.splits if_splits prod.splits)
  qed
qed

lemma first_pass_reports:
  "first_pass env idx docs = (l, ds, e) \<Longrightarrow> i < length docs
    \<Longrightarrow> \<forall>j<i. passes_first_loop (docs ! j)
    \<Longrightarrow> truthy (docs ! i) \<Longrightarrow> \<not> is_str (docs ! i) \<Longrightarrow> \<not> is_list (docs ! i)
    \<Longrightarrow> error [Lit ''Unexpected type at index '', Num (int (idx + i)),
                 Lit ''. Expected a list of tokens or string, got: '', Ty (py_type (docs ! i))]
          \<in> set l
        \<and> e = Some (Exc ValueError [Lit ''Unexpected type at index '', Num (int (idx + i)),
                 Lit ''. Expected list or string, got: '', Ty (py_type (docs ! i))])"
proof (induction docs arbitrary: idx l ds e i)
  case Nil
  then show ?case by simp
next
  case (Cons doc rest)
  show ?case
  proof (cases i)
    case 0
    with Cons.prems show ?thesis
      by (auto simp: truthy_def)
  next
    case (Suc k)
    from Cons.prems(3) Suc have doc: "passes_first_loop doc"
      and rest: "\<forall>j<k. passes_first_loop (rest ! j)"
      by auto
    obtain l' ds' e' where fp: "first_pass env (Suc idx) rest = (l', ds', e')"
      by (cases "first_pass env (Suc idx) rest") auto
    from Cons.prems Suc have "k < length rest" "truthy (rest ! k)" "\<not> is_str (rest ! k)"
      "\<not> is_list (rest ! k)"
      by auto
    from Cons.IH [OF fp this(1) rest this(2,3,4)]
    have ih: "error [Lit ''Unexpected type at index '', Num (int (Suc idx + k)),
                 Lit ''. Expected a list of tokens or string, got: '', Ty (py_type (rest ! k))]
          \<in> set l'"
      "e' = Some (Exc ValueError [Lit ''Unexpected type at index '', Num (int (Suc idx + k)),
                 Lit ''. Expected list or string, got: '', Ty (py_type (rest ! k))])"
      by auto
    from doc Cons.prems(1) fp have "set l' \<subseteq> set l" "e = e'"
      by (auto simp: passes_first_loop_def split: option.splits bool.splits if_splits)
    with ih Suc show ?thesis
      by auto
  qed
qed

lemma normalize_documents_keeps:
  assumes "i < length docs" "\<not> is_str (docs ! i)" "\<not> is_list (docs ! i)"
  shows "\<exists>l ds. normalize_documents env (Ok docs) = (l, Some ds) \<and> length ds = length docs
    \<and> ds ! i = docs ! i"
proof -
  obtain l1 ds e where fp: "first_pass env 0 docs = (l1, ds, e)"
    by (cases "first_pass env 0 docs") auto
  from first_pass_length [OF fp] first_pass_keeps [OF fp assms] fp show ?thesis
    by (auto simp: normalize_documents_def split: option.splits prod.splits)
qed

lemma check_structure_non_list:
  assumes "i < length bd" "\<not> is_list (bd ! i)"
  shows "\<exists>l. check_structure (Some bd) = (l, Stop NoRecord)"
proof -
  from assms have ne: "bd \<noteq> []" by auto
  from assms have not_all: "\<not> list_all is_list bd"
    by (auto simp: list_all_length)
  show ?thesis
  proof (cases "length bd = 1 \<and> is_list (hd bd)")
    case True
    with assms have False
      by (cases bd) auto
    then show ?thesis ..
  next
    case False
    with ne not_all show ?thesis
      by (auto simp: check_structure_def stop_def Let_def)
  qed
qed

lemma train_model_v2_structure:
  assumes "get_client env = Ok ()"
    and "normalize_documents env (validation_test_data a) = (l, bd)"
    and "check_structure bd = (l', Stop r)"
  shows "train_model_v2 env a = (l @ l', Abort r)"
  using assms
  by (simp add: train_model_v2_def pipeline_def prepare_def propagate_def total_def
      andthen_Stop andthen_Continue_eq)

text \<open>
  C2, as amended. When the raw collection has an item that is neither a string nor a
  list, the \<^verbatim>\<open>ValueError\<close> of the normalizer is caught inside the function (line 112)
  and the call returns \<^verbatim>\<open>None\<close>: no mapping is produced and no exception reaches the
  caller. When that item is true and every item before it gets through the first loop,
  the log has the record that names its index and type (line 99) and the record of the
  handler with the message of the exception (line 113).
\<close>

theorem non_list_item_returns_None:
  assumes client: "get_client env = Ok ()"
    and docs: "validation_test_data a = Ok docs"
    and i: "i < length docs"
    and bad: "\<not> is_str (docs ! i)" "\<not> is_list (docs ! i)"
  shows "snd (train_model_v2 env a) = Abort NoRecord
    \<and> ((\<forall>j<i. passes_first_loop (docs ! j)) \<and> truthy (docs ! i) \<longrightarrow>
          error [Lit ''Unexpected type at index '', Num (int i),
                 Lit ''. Expected a list of tokens or string, got: '', Ty (py_type (docs ! i))]
            \<in> set (fst (train_model_v2 env a))
          \<and> computing_failed (Exc ValueError [Lit ''Unexpected type at index '', Num (int i),
                 Lit ''. Expected list or string, got: '', Ty (py_type (docs ! i))])
            \<in> set (fst (train_model_v2 env a)))"
proof -
  obtain l ds where norm: "normalize_documents env (Ok docs) = (l, Some ds)"
    and len: "length ds = length docs" and same: "ds ! i = docs ! i"
    using normalize_documents_keeps [OF i bad] by blast
  from i len bad same obtain l' where chk: "check_structure (Some ds) = (l', Stop NoRecord)"
    using check_structure_non_list [of i ds] by auto
  have run: "train_model_v2 env a = (l @ l', Abort NoRecord)"
    using train_model_v2_structure [OF client _ chk] norm docs by simp
  have logs: "error [Lit ''Unexpected type at index '', Num (int i),
                 Lit ''. Expected a list of tokens or string, got: '', Ty (py_type (docs ! i))]
            \<in> set l
          \<and> computing_failed (Exc ValueError [Lit ''Unexpected type at index '', Num (int i),
                 Lit ''. Expected list or string, got: '', Ty (py_type (docs ! i))]) \<in> set l"
    if pass: "\<forall>j<i. passes_first_loop (docs ! j)" and true: "truthy (docs ! i)"
  proof -
    obtain l1 ds1 e where fp: "first_pass env 0 docs = (l1, ds1, e)"
      by (cases "first_pass env 0 docs") auto
    from first_pass_reports [OF fp i pass true bad]
    have "error [Lit ''Unexpected type at index '', Num (int i),
                 Lit ''. Expected a list of tokens or string, got: '', Ty (py_type (docs ! i))]
            \<in> set l1"
      and e: "e = Some (Exc ValueError [Lit ''Unexpected type at index '', Num (int i),
                 Lit ''. Expected list or string, got: '', Ty (py_type (docs ! i))])"
      by auto
    with fp norm show ?thesis
      by (auto simp: normalize_documents_def)
  qed
  from run logs show ?thesis
    by auto
qed

theorem non_list_item_returns_None_witness:
  "snd (train_model_v2 example_env mixed_args) = Abort NoRecord
   \<and> error [Lit ''Unexpected type at index '', Num 1,
             Lit ''. Expected a list of tokens or string, got: '', Ty ''int'']
       \<in> set (fst (train_model_v2 example_env mixed_args))
   \<and> computing_failed (Exc ValueError [Lit ''Unexpected type at index '', Num 1,
             Lit ''. Expected list or string, got: '', Ty ''int''])
       \<in> set (fst (train_model_v2 example_env mixed_args))"
  using non_list_item_returns_None [of example_env mixed_args
      "[VList [VStr ''a'', VStr ''b''], VInt 7, VList [VStr ''c'']]" 1]
  by (simp add: example_env_def mixed_args_def example_args_def passes_first_loop_def truthy_def)

text \<open>
  C2 as stated fails: with the integer 7 among lists of strings the call raises nothing,
  it returns \<^verbatim>\<open>None\<close>.
\<close>

theorem integer_item_raises_nothing:
  "snd (train_model_v2 example_env mixed_args) = Abort NoRecord"
  by code_simp

section \<open>The corpus builder\<close>

lemma bow_loop_converts:
  "bow_loop env d ph docs = (l, c, n, failed) \<Longrightarrow> ph \<in> set corpus_keys
    \<Longrightarrow> c = concat (map (\<lambda>doc. if doc = [] then []
                              else (case doc2bow env d doc of Ok b \<Rightarrow> [b] | Raise e \<Rightarrow> [])) docs)
      \<and> n = length c \<and> n + failed = length docs"
proof (induction docs arbitrary: l c n failed)
  case Nil
  then show ?case by simp
next
  case (Cons doc rest)
  obtain l' c' n' f' where rest: "bow_loop env d ph rest = (l', c', n', f')"
    by (cases "bow_loop env d ph rest") auto
  from Cons.IH [OF rest Cons.prems(2)] Cons.prems rest show ?case
    by (auto split: if_splits outcome.splits)
qed

lemma bow_loop_unified:
  "bow_loop env d (phase (a\<lparr>unified_dictionary := u\<rparr>)) docs = bow_loop env d (phase a) docs"
  by simp

text \<open>
  C5, as amended. Each normalized document is converted to (id, count) pairs against the
  phase-local dictionary built from the batch (lines 138 and 176); the
  \<^verbatim>\<open>unified_dictionary\<close> parameter is not consulted by the conversion. An empty document
  and a conversion that raises are counted as failures and skipped, and the builder goes
  on: the corpus is the list of the successful conversions, in order.
\<close>

theorem bow_conversion_uses_phase_local_dictionary:
  assumes "Dictionary env docs = Ok d" and "d \<noteq> []" and "phase a \<in> set corpus_keys"
  shows "\<exists>l cs. corpus_builder env a docs = (l, Continue cs)
    \<and> train_val_test_dictionary cs = d
    \<and> corpus cs = concat (map (\<lambda>doc. if doc = [] then []
                        else (case doc2bow env d doc of Ok b \<Rightarrow> [b] | Raise e \<Rightarrow> [])) docs)
    \<and> number_of_documents cs = length (corpus cs)
    \<and> number_of_documents cs + failed_convert_token_to_bow cs = length docs
    \<and> (\<forall>u. corpus_builder env (a\<lparr>unified_dictionary := u\<rparr>) docs = corpus_builder env a docs)"
proof -
  obtain l c n failed where loop: "bow_loop env d (phase a) docs = (l, c, n, failed)"
    by (cases "bow_loop env d (phase a) docs") auto
  from bow_loop_converts [OF loop assms(3)]
  have c: "c = concat (map (\<lambda>doc. if doc = [] then []
                        else (case doc2bow env d doc of Ok b \<Rightarrow> [b] | Raise e \<Rightarrow> [])) docs)"
    and n: "n = length c" and nf: "n + failed = length docs"
    by auto
  have built: "corpus_builder env a docs =
      (l, Continue \<lparr>train_val_test_dictionary = d, corpus = c, number_of_documents = n,
                      failed_convert_token_to_bow = failed,
                      chunksize = max 1 (int (length c) div 5)\<rparr>)"
    using loop assms
    by (simp add: corpus_builder_def build_dictionary_def andthen_def continue_def logged_def)
  have same: "corpus_builder env (a\<lparr>unified_dictionary := u\<rparr>) docs = corpus_builder env a docs"
    for u
    by (simp add: corpus_builder_def cong: if_cong)
  from built c n nf same show ?thesis
    by simp
qed

lemma example_dictionary:
  "Dictionary example_env example_docs = Ok [(''a'', 0), (''b'', 1), (''c'', 2)]"
  by code_simp

lemma example_phase: "phase example_args \<in> set corpus_keys"
  by code_simp

lemma example_conversions:
  "concat (map (\<lambda>doc. if doc = [] then []
       else (case doc2bow example_env [(''a'', 0), (''b'', 1), (''c'', 2)] doc of
               Ok b \<Rightarrow> [b] | Raise e \<Rightarrow> [])) example_docs)
   = [[(0, 2), (1, 1)], [(2, 1)], [(1, 1), (2, 1)]]"
  by code_simp

theorem bow_conversion_uses_phase_local_dictionary_witness:
  "\<exists>l cs. corpus_builder example_env example_args example_docs = (l, Continue cs)
     \<and> train_val_test_dictionary cs = [(''a'', 0), (''b'', 1), (''c'', 2)]
     \<and> corpus cs = [[(0, 2), (1, 1)], [(2, 1)], [(1, 1), (2, 1)]]
     \<and> number_of_documents cs = 3"
  using bow_conversion_uses_phase_local_dictionary [OF example_dictionary _ example_phase]
    example_conversions
  by auto

text \<open>
  C5 as stated fails: in the example call the documents are converted with the ids of the
  phase-local dictionary (a is 0, b is 1), not with those of the unified dictionary that
  was passed in (b is 0, a is 1).
\<close>

theorem bow_conversion_ignores_unified_dictionary:
  "snd (check_structure (snd (normalize_documents example_env (validation_test_data example_args))))
     = Continue example_docs
   \<and> snd (corpus_builder example_env example_args example_docs)
     = Continue \<lparr>train_val_test_dictionary = [(''a'', 0), (''b'', 1), (''c'', 2)],
                 corpus = [[(0, 2), (1, 1)], [(2, 1)], [(1, 1), (2, 1)]],
                 number_of_documents = 3, failed_convert_token_to_bow = 0, chunksize = 1\<rparr>
   \<and> unified_dictionary example_args = [(''b'', 0), (''a'', 1), (''c'', 2)]
   \<and> map (doc2bow example_env (unified_dictionary example_args)) example_docs
     = [Ok [(0, 1), (1, 2)], Ok [(2, 1)], Ok [(0, 1), (2, 1)]]"
  by code_simp

section \<open>The batch executor\<close>

lemma partition_corpus_nonzero:
  "batch_size \<noteq> 0 \<Longrightarrow> \<exists>slices. partition_corpus batch_size c = Ok slices"
  by (simp add: partition_corpus_def)

text \<open>
  C6. The executor asks the heuristic for a batch size with bounds 1 and 15, memory-limit
  ratio 0.4 and CPU factor 3, clamps the answer to the length of the corpus and takes 5
  when the clamped value is zero; the batches are then slices of the corpus. When the
  heuristic raises, the handler of line 412 takes the corpus itself for the list of
  batches: every document is a batch of its own, and \<^verbatim>\<open>batch_size\<close> stays at -1. (The
  claim has the whole corpus as one single batch on that path.)
\<close>

theorem executor_batch_size_and_fallback:
  "(\<forall>h. estimate_batches_large_docs_v2 env (data_source a) 1 15 (2 / 5) 3 = Ok h \<longrightarrow>
      fst (snd (make_batches env a c))
        = (if min (int (length c)) h = 0 then 5 else min (int (length c)) h)
      \<and> (\<exists>slices. snd (snd (make_batches env a c)) = map Batch slices))
   \<and> (\<forall>e. estimate_batches_large_docs_v2 env (data_source a) 1 15 (2 / 5) 3 = Raise e \<longrightarrow>
      make_batches env a c = (fallback_logs e, - 1, map DocAsBatch c))"
proof (intro conjI allI impI)
  fix h
  assume h: "estimate_batches_large_docs_v2 env (data_source a) 1 15 (2 / 5) 3 = Ok h"
  let ?b = "if min (int (length c)) h = 0 then 5 else min (int (length c)) h"
  have "?b \<noteq> 0" by simp
  then obtain slices where s: "partition_corpus ?b c = Ok slices"
    using partition_corpus_nonzero by blast
  from h s have mb: "make_batches env a c = ([], ?b, map Batch slices)"
    by (simp add: make_batches_def Let_def)
  from mb show "fst (snd (make_batches env a c)) = ?b"
    by simp
  from mb show "\<exists>slices. snd (snd (make_batches env a c)) = map Batch slices"
    by auto
next
  fix e
  assume "estimate_batches_large_docs_v2 env (data_source a) 1 15 (2 / 5) 3 = Raise e"
  then show "make_batches env a c = (fallback_logs e, - 1, map DocAsBatch c)"
    by (simp add: make_batches_def)
qed

lemma fallback_env_raises:
  "estimate_batches_large_docs_v2 fallback_env (data_source example_args) 1 15 (2 / 5) 3
     = Raise (Exc OtherException [Lit ''no memory information''])"
  by (simp add: fallback_env_def)

lemma example_env_estimates:
  "estimate_batches_large_docs_v2 example_env (data_source example_args) 1 15 (2 / 5) 3 = Ok 2"
  by (simp add: example_env_def)

theorem executor_batch_size_and_fallback_witness:
  "fst (snd (make_batches example_env example_args example_corpus)) = 2
   \<and> snd (snd (make_batches fallback_env example_args example_corpus))
       = [DocAsBatch [(0, 2), (1, 1)], DocAsBatch [(2, 1)], DocAsBatch [(1, 1), (2, 1)]]
   \<and> fst (snd (make_batches fallback_env example_args example_corpus)) = - 1"
  using executor_batch_size_and_fallback [of example_env example_args example_corpus,
      THEN conjunct1, rule_format, OF example_env_estimates]
    executor_batch_size_and_fallback [of fallback_env example_args example_corpus,
      THEN conjunct2, rule_format, OF fallback_env_raises]
  by (simp add: example_corpus_def)


















section \<open>The steps of a call\<close>

lemma propagate_Continue: "propagate m = (l, Continue y) \<longleftrightarrow> m = Ok y \<and> l = []"
  by (cases m) (auto simp: propagate_def)

lemma logged_Continue: "logged l' x = (l, Continue y) \<longleftrightarrow> l = l' \<and> y = x"
  by (auto simp: logged_def)

lemma prepare_steps:
  assumes "prepare env a = (l, Continue p)"
  shows "p_threshold p = snd (threshold_task env a (p_ldamodel p) (corpus (p_corpus_state p)))
    \<and> (\<exists>l'. model_stage env a (corpus (p_corpus_state p)) (p_n_alpha p) (p_n_beta p)
               (chunksize (p_corpus_state p)) = (l', Continue (p_ldamodel p, p_ldamodel_bytes p)))
    \<and> (\<exists>l'. corpus_builder env a (p_batch_documents p) = (l', Continue (p_corpus_state p)))"
  using assms unfolding prepare_def andthen_Continue continue_Continue total_Continue
  apply (elim exE conjE)
  apply (simp only: prepared.select_convs prod.collapse)
  apply blast
  done

lemma conclude_steps:
  assumes "conclude env a p = (l, Continue r)"
  shows "\<exists>lt topics lv vj ltw tw lj joined lda.
      extract_topics env a (p_ldamodel p) (count_words (corpus (p_corpus_state p)))
        = (lt, Continue topics)
    \<and> serialize_validation_results env (phase a)
        (snd (snd (distributed_batch_executor env a (p_ldamodel p) (corpus (p_corpus_state p)))))
        = (lv, Continue vj)
    \<and> topic_words_stage env a (p_ldamodel p) (p_batch_documents p)
        (snd (snd (distributed_batch_executor env a (p_ldamodel p) (corpus (p_corpus_state p)))))
        vj = (ltw, Continue tw)
    \<and> join_tasks (p_threshold p)
        (snd (convergence_task env (p_ldamodel p) (corpus (p_corpus_state p))))
        (snd (perplexity_task env (p_ldamodel p) (corpus (p_corpus_state p))))
        (fst topics) = (lj, Continue joined)
    \<and> compute_model_bytes (p_ldamodel_bytes p) = Ok lda
    \<and> (\<exists>v. r = db_data (current_increment_data env a v)
          \<and> l_topic_words_jsonb v = tw \<and> l_topics_results_jsonb v = snd topics
          \<and> l_validation_results_jsonb v = vj \<and> l_lda_model v = lda
          \<and> l_threshold v = fst joined \<and> l_convergence_score v = fst (snd joined)
          \<and> l_perplexity_score v = fst (snd (snd joined)))"
  using assms
  unfolding conclude_def Let_def andthen_Continue continue_Continue total_Continue
    propagate_Continue logged_Continue
  apply (elim exE conjE)
  apply (simp only:)
  apply (intro exI conjI)
             apply (rule refl | assumption)
            apply (rule refl | assumption)
           apply (rule refl | assumption)
          apply (rule refl | assumption)
         apply (rule refl | assumption)
        apply (rule refl)
       apply (simp_all only: locals.select_convs)
  done

section \<open>The serializer\<close>

lemma json_dumps_plain: "json_plain v \<Longrightarrow> json_dumps env enc v = Ok (JsonText enc v)"
  by (simp add: json_dumps_def)

lemma json_dumps_Ok: "json_dumps env enc v = Ok j \<Longrightarrow> j = JsonText enc v"
  by (auto simp: json_dumps_def split: if_splits option.splits)

lemma json_plain_constants:
  "json_plain not_initialized" "json_plain failed_extract" "json_plain (error_sentinel ph)"
  "json_plain (VList [])" "json_plain (VList [executor_sentinel ph])"
  by (simp_all add: not_initialized_def failed_extract_def error_sentinel_def
      executor_sentinel_def)

lemma third_attempt_Ok: "third_attempt env v = Ok j \<Longrightarrow> \<exists>u. j = JsonText EncPlain u"
  by (cases v) (auto simp: third_attempt_def obind_def dest: json_dumps_Ok split: outcome.splits)

lemma serialize_validation_results_total:
  "\<exists>l enc u. serialize_validation_results env ph vs = (l, Continue (JsonText enc u))"
proof (cases "json_dumps env EncHook (VList vs)")
  case (Ok j)
  with json_dumps_Ok [OF Ok] show ?thesis
    by (simp add: serialize_validation_results_def continue_def)
next
  case e1: (Raise e1)
  show ?thesis
  proof (cases "json_dumps env EncNumpy (VList vs)")
    case (Ok j)
    with json_dumps_Ok [OF Ok] e1 show ?thesis
      by (simp add: serialize_validation_results_def continue_def logged_def andthen_def)
  next
    case e2: (Raise e2)
    show ?thesis
    proof (cases "third_attempt env (VList vs)")
      case (Ok j)
      with third_attempt_Ok [OF Ok] e1 e2 show ?thesis
        by (auto simp: serialize_validation_results_def continue_def logged_def andthen_def)
    next
      case (Raise e3)
      with e1 e2 show ?thesis
        by (simp add: serialize_validation_results_def continue_def logged_def andthen_def
            propagate_def json_dumps_plain json_plain_constants)
    qed
  qed
qed

lemma topic_words_stage_skipped:
  "topic_words_stage env a m docs vs (JsonText enc u)
     = ([], Continue (JsonText EncPlain not_initialized))"
  by (simp add: topic_words_stage_def json_dumps_plain json_plain_constants propagate_def
      andthen_def continue_def)

lemma serialize_failed_topics_total:
  "\<exists>l f. serialize_failed_topics env ph = (l, Continue f)
     \<and> ((\<exists>enc u. f = JsonText enc u)
        \<or> (\<exists>u. convert_float32_to_float env failed_extract = Ok u \<and> f = Plain u))"
proof (cases "convert_float32_to_float env failed_extract")
  case (Ok u)
  then show ?thesis
    by (simp add: serialize_failed_topics_def continue_def)
next
  case (Raise e1)
  then show ?thesis
    by (simp add: serialize_failed_topics_def continue_def logged_def andthen_def
        json_dumps_plain json_plain_constants)
qed

lemma extract_topics_total:
  "\<exists>l t f. extract_topics env a m n = (l, Continue (t, f))
     \<and> ((\<exists>enc u. f = JsonText enc u)
        \<or> (\<exists>u. convert_float32_to_float env failed_extract = Ok u \<and> f = Plain u))"
proof (cases "extract_topics_with_get_topic_terms env m n")
  case (Raise e)
  then show ?thesis
    by (simp add: extract_topics_def continue_def logged_def andthen_def propagate_def
        json_dumps_plain json_plain_constants)
next
  case (Ok t)
  show ?thesis
  proof (cases "obind (t 0) (json_dumps env EncNumpy)")
    case j: (Ok j)
    then have "\<exists>u. j = JsonText EncNumpy u"
      by (auto simp: obind_def dest: json_dumps_Ok split: outcome.splits)
    with Ok j show ?thesis
      by (auto simp: extract_topics_def continue_def)
  next
    case (Raise e)
    obtain l f where "serialize_failed_topics env (phase a) = (l, Continue f)"
      and "(\<exists>enc u. f = JsonText enc u)
        \<or> (\<exists>u. convert_float32_to_float env failed_extract = Ok u \<and> f = Plain u)"
      using serialize_failed_topics_total by blast
    with Ok Raise show ?thesis
      by (simp add: extract_topics_def continue_def logged_def andthen_def)
  qed
qed

lemma top_topics_field:
  "map_of (current_increment_data env a v) ''top_topics'' = Some (l_topic_words_jsonb v)"
  by (simp add: current_increment_data_def Let_def)

text \<open>
  C3. The cascade for the per-document validation results always ends in an encoded
  value, and the one for the extracted topics always ends without raising (in an encoded
  value, or in what \<^verbatim>\<open>convert_float32_to_float\<close> returned for the failure marker, line
  360). The cascade for the topic words is the body of the \<^verbatim>\<open>if\<close> of line 516, whose
  condition is never true: it is not applied, and every mapping that is returned has the
  placeholder of line 325 for its \<^verbatim>\<open>top_topics\<close>.
\<close>

theorem topic_word_cascade_never_runs:
  "(\<exists>l enc u. serialize_validation_results env ph vs = (l, Continue (JsonText enc u)))
   \<and> (\<exists>l t f. extract_topics env a m n = (l, Continue (t, f))
        \<and> ((\<exists>enc u. f = JsonText enc u)
           \<or> (\<exists>u. convert_float32_to_float env failed_extract = Ok u \<and> f = Plain u)))
   \<and> (\<forall>r. snd (train_model_v2 env a) = Record r \<longrightarrow>
        map_of r ''top_topics'' = Some (JsonText EncPlain not_initialized))"
proof (intro conjI allI impI)
  show "\<exists>l enc u. serialize_validation_results env ph vs = (l, Continue (JsonText enc u))"
    by (rule serialize_validation_results_total)
  show "\<exists>l t f. extract_topics env a m n = (l, Continue (t, f))
        \<and> ((\<exists>enc u. f = JsonText enc u)
           \<or> (\<exists>u. convert_float32_to_float env failed_extract = Ok u \<and> f = Plain u))"
    by (rule extract_topics_total)
next
  fix r
  assume "snd (train_model_v2 env a) = Record r"
  then obtain l2 p where c: "conclude env a p = (l2, Continue r)"
    by (auto simp: train_model_v2_Record pipeline_Continue)
  from conclude_steps [OF c] obtain lv vj ltw tw v where
    vj: "serialize_validation_results env (phase a)
        (snd (snd (distributed_batch_executor env a (p_ldamodel p) (corpus (p_corpus_state p)))))
        = (lv, Continue vj)"
    and tw: "topic_words_stage env a (p_ldamodel p) (p_batch_documents p)
        (snd (snd (distributed_batch_executor env a (p_ldamodel p) (corpus (p_corpus_state p)))))
        vj = (ltw, Continue tw)"
    and r: "r = db_data (current_increment_data env a v)" and v: "l_topic_words_jsonb v = tw"
    by blast
  from serialize_validation_results_total [of env "phase a"] vj
  obtain enc u where "vj = JsonText enc u"
    by (metis Pair_inject step.inject)
  with tw have "tw = JsonText EncPlain not_initialized"
    by (simp add: topic_words_stage_skipped)
  with r v show "map_of r ''top_topics'' = Some (JsonText EncPlain not_initialized)"
    by (simp add: map_of_db_data top_topics_field)
qed

theorem topic_word_cascade_never_runs_witness:
  "snd (train_model_v2 example_env example_args) = Record example_record
   \<and> map_of example_record ''top_topics'' = Some (JsonText EncPlain not_initialized)"
  using topic_word_cascade_never_runs [of example_env "phase example_args" "[]" example_args
      VNone 0, THEN conjunct2, THEN conjunct2, rule_format, OF example_returns]
    example_returns
  by simp

lemma failed_topics_payload_is_not_encoded:
  "snd (train_model_v2 topics_fail_env example_args) = Record topics_fail_record
   \<and> map_of topics_fail_record ''topics_words'' = Some (Plain failed_extract)"
  by code_simp

section \<open>The join of the deferred metrics and the model bytes\<close>

lemma andthen_ContinueI:
  "m = (l1, Continue y) \<Longrightarrow> f y = (l2, s) \<Longrightarrow> andthen m f = (l1 @ l2, s)"
  by (simp add: andthen_def)

lemma andthen_StopI: "m = (l, Stop x) \<Longrightarrow> andthen m f = (l, Stop x)"
  by (simp add: andthen_def)

lemma conclude_join_stops:
  assumes ext: "extract_topics env a (p_ldamodel p) (count_words (corpus (p_corpus_state p)))
      = (lt, Continue topics)"
    and ser: "serialize_validation_results env (phase a)
        (snd (snd (distributed_batch_executor env a (p_ldamodel p) (corpus (p_corpus_state p)))))
        = (lv, Continue (JsonText enc u))"
    and join: "join_tasks (p_threshold p)
        (snd (convergence_task env (p_ldamodel p) (corpus (p_corpus_state p))))
        (snd (perplexity_task env (p_ldamodel p) (corpus (p_corpus_state p))))
        (fst topics) = (lj, Stop x)"
  shows "\<exists>l'. conclude env a p = (l', Stop x)"
  unfolding conclude_def Let_def
  apply (rule exI)
  apply (rule andthen_ContinueI [OF total_def])
  apply (rule andthen_ContinueI [OF total_def])
  apply (rule andthen_ContinueI [OF total_def])
  apply (rule andthen_ContinueI [OF ext])
  apply (rule andthen_ContinueI [OF total_def])
  apply (rule andthen_ContinueI [OF ser])
  apply (rule andthen_ContinueI [OF topic_words_stage_skipped])
  apply (rule andthen_StopI [OF join])
  done

lemma join_tasks_threshold_raises:
  "\<exists>e'. join_tasks (Raise e) convergence perplexity t = ([], Stop (Raised e'))"
  by (cases t) (simp_all add: join_tasks_def stop_def propagate_def obind_def)

lemma pipeline_after_prepare:
  "prepare env a = (l, Continue p) \<Longrightarrow> conclude env a p = (l', s)
    \<Longrightarrow> pipeline env a = (l @ l', s)"
  by (simp add: pipeline_def andthen_def)

text \<open>
  C7. The handlers of lines 247, 307 and 317 guard the construction of the deferred
  metric tasks only; the tasks are forced at line 639, outside every \<^verbatim>\<open>try\<close>. So when
  the call has reached the metric pipeline and the perplexity-threshold function raises
  once it is forced, the call ends with an exception that reaches the caller, and no
  mapping is returned.
\<close>

theorem metric_failure_reaches_the_caller:
  assumes prep: "prepare env a = (l, Continue p)"
    and built: "delayed_error env ''calculate_perplexity_threshold'' = None"
    and raises: "calculate_perplexity_threshold env (p_ldamodel p) (corpus (p_corpus_state p))
        DEFAULT_SCORE = Raise e"
  shows "\<exists>l' e'. train_model_v2 env a = (l', Abort (Raised e'))"
proof -
  from prepare_steps [OF prep] built raises have thr: "p_threshold p = Raise e"
    by (simp add: threshold_task_def delayed_or_default_def)
  obtain lt t f where ext: "extract_topics env a (p_ldamodel p)
      (count_words (corpus (p_corpus_state p))) = (lt, Continue (t, f))"
    using extract_topics_total by blast
  obtain lv enc u where ser: "serialize_validation_results env (phase a)
      (snd (snd (distributed_batch_executor env a (p_ldamodel p) (corpus (p_corpus_state p)))))
      = (lv, Continue (JsonText enc u))"
    using serialize_validation_results_total by blast
  obtain e' where join: "join_tasks (p_threshold p)
      (snd (convergence_task env (p_ldamodel p) (corpus (p_corpus_state p))))
      (snd (perplexity_task env (p_ldamodel p) (corpus (p_corpus_state p))))
      (fst (t, f)) = ([], Stop (Raised e'))"
    using join_tasks_threshold_raises thr by metis
  from conclude_join_stops [OF ext ser join] obtain l' where
    "conclude env a p = (l', Stop (Raised e'))"
    by blast
  from pipeline_after_prepare [OF prep this] show ?thesis
    by (simp add: train_model_v2_def)
qed

lemma metric_fail_prepares:
  "prepare metric_fail_env example_args = ([], Continue metric_fail_prepared)"
  by code_simp

lemma metric_fail_built:
  "delayed_error metric_fail_env ''calculate_perplexity_threshold'' = None"
  by (simp add: metric_fail_env_def example_env_def)

lemma metric_fail_raises:
  "calculate_perplexity_threshold metric_fail_env (p_ldamodel metric_fail_prepared)
     (corpus (p_corpus_state metric_fail_prepared)) DEFAULT_SCORE = Raise metric_failed"
  by (simp add: metric_fail_env_def)

lemma metric_fail_run:
  "snd (train_model_v2 metric_fail_env example_args) = Abort (Raised metric_failed)"
  by code_simp

theorem metric_failure_reaches_the_caller_witness:
  "prepare metric_fail_env example_args = ([], Continue metric_fail_prepared)
   \<and> (\<exists>l' e'. train_model_v2 metric_fail_env example_args = (l', Abort (Raised e')))
   \<and> snd (train_model_v2 metric_fail_env example_args) = Abort (Raised metric_failed)"
  using metric_failure_reaches_the_caller
      [OF metric_fail_prepares metric_fail_built metric_fail_raises]
    metric_fail_prepares metric_fail_run
  by simp

lemma reused_model_never_returns:
  assumes "phase a \<in> set [''validation'', ''test'']"
  shows "snd (train_model_v2 env a) \<noteq> Record r"
proof
  assume "snd (train_model_v2 env a) = Record r"
  then obtain l1 p l2 where prep: "prepare env a = (l1, Continue p)"
    and c: "conclude env a p = (l2, Continue r)"
    by (auto simp: train_model_v2_Record pipeline_Continue)
  from prepare_steps [OF prep] obtain l' where
    "model_stage env a (corpus (p_corpus_state p)) (p_n_alpha p) (p_n_beta p)
       (chunksize (p_corpus_state p)) = (l', Continue (p_ldamodel p, p_ldamodel_bytes p))"
    by blast
  with assms obtain b where "p_ldamodel_bytes p = Bytes b"
    by (auto simp: model_stage_def andthen_Continue propagate_Continue continue_Continue)
  moreover from conclude_steps [OF c] obtain lda where
    "compute_model_bytes (p_ldamodel_bytes p) = Ok lda"
    by blast
  ultimately show False
    by (simp add: compute_model_bytes_def)
qed

section \<open>A call without a document to convert\<close>














section \<open>The returned mapping is complete\<close>

lemma returned_record_keys:
  assumes "snd (train_model_v2 env a) = Record r"
  shows "map fst r =
    [''time_key'', ''type'', ''start_time'', ''end_time'', ''num_workers'', ''batch_size'',
     ''num_word'', ''text'', ''text_json'', ''max_attempts'', ''top_topics'', ''topics_words'',
     ''validation_result'', ''text_sha256'', ''text_md5'', ''text_path'', ''pca_path'',
     ''pca_gpu_path'', ''pylda_path'', ''topics'', ''alpha_str'', ''n_alpha'', ''beta_str'',
     ''n_beta'', ''passes'', ''iterations'', ''update_every'', ''eval_every'', ''chunksize'',
     ''random_state'', ''per_word_topics'', ''convergence'', ''nll'', ''perplexity'',
     ''coherence'', ''mean_coherence'', ''median_coherence'', ''mode_coherence'',
     ''std_coherence'', ''perplexity_threshold'', ''lda_model'', ''corpus'', ''dictionary'',
     ''create_pylda'', ''create_pcoa'', ''create_pca_gpu'']"
proof -
  from assms obtain v where "r = db_data (current_increment_data env a v)"
    using returned_record by blast
  then show ?thesis
    by (simp add: db_data_def current_increment_data_def Let_def comp_def)
qed

end
